theory Spec2Isabelle
  imports Complex_Main "HOL-Library.Sublist" "HOL-Library.Multiset"
begin

section \<open>Time, library primitives and the request environment\<close>

text \<open>
  Instants are whole seconds on the Unix time line, the precision of Redis TTLs given in
  hours and of \<^verbatim>\<open>jwt.NumericDate\<close>.  Go's \<^verbatim>\<open>time.Time{}\<close> is
  midnight of 1 January of year 1.  A \<^verbatim>\<open>float64\<close> is modelled as a real number;
  rounding is not modelled.
\<close>

type_synonym time = int

definition zeroTime :: time where
  "zeroTime = - 62135596800"

definition hour :: int where
  "hour = 3600"

text \<open>The signing methods a compact JWT header can name.\<close>

datatype alg = HS256 | HS384 | HS512 | OtherAlg string

text \<open>\<^verbatim>\<open>jwt.RegisteredClaims\<close>: the two fields the program sets or reads.  The other
  registered claims are never set by the program and are omitted from the token.\<close>

record RegisteredClaims =
  Subject :: string
  ExpiresAt :: "time option"

text \<open>A parsed token: the method named in the header, the claims and the signature.\<close>

record Token =
  Method :: alg
  Claims :: RegisteredClaims
  Signature :: string

text \<open>
  What the world outside the repository supplies to one request: the library primitives
  (HMAC over a token's header and claims, the compact serialisation of a token and its
  parser, bcrypt, the validator's e-mail test, \<^verbatim>\<open>time.Parse(time.RFC3339, _)\<close>),
  the clock, the identifier \<^verbatim>\<open>uuid.New().String()\<close> returns, the configured signing
  secret, and for the n-th Redis command the request issues whether it fails and with
  which detail.  Both readings of \<^verbatim>\<open>time.Now()\<close> inside one request are the same
  instant.
\<close>

record env =
  hmac :: "alg \<Rightarrow> string \<Rightarrow> alg \<times> RegisteredClaims \<Rightarrow> string"
  compact :: "Token \<Rightarrow> string"
  parseCompact :: "string \<Rightarrow> Token option"
  bcryptGenerate :: "string \<Rightarrow> string option"
  bcryptCompare :: "string \<Rightarrow> string \<Rightarrow> bool"
  isEmail :: "string \<Rightarrow> bool"
  parseRFC3339 :: "string \<Rightarrow> time option"
  Now :: time
  NewUUID :: string
  JWTSecret :: string
  StoreErr :: "nat \<Rightarrow> string option"

section \<open>models.go\<close>

record User =
  ID :: string
  Email :: string
  Password :: string
  FullName :: string
  Active :: bool
  CreatedAt :: time
  UpdatedAt :: time

record RegisterRequest =
  Email :: string
  Password :: string
  FullName :: string

record LoginRequest =
  Email :: string
  Password :: string

record HealthRecord =
  ID :: string
  UserID :: string
  Type :: string
  Value :: real
  Unit :: string
  Notes :: string
  RecordedAt :: time
  CreatedAt :: time

record HealthRecordRequest =
  Type :: string
  Value :: real
  Unit :: string
  Notes :: string
  RecordedAt :: string

record HealthStats =
  UserID :: string
  Type :: string
  Average :: real
  Min_val :: real
  Max_val :: real
  Count :: int
  LastRecord :: time

record HealthRecordInput =
  Type :: string
  Value :: real
  Unit :: string

section \<open>validate.go: the struct tags as the validator evaluates them\<close>

text \<open>
  A failed tag is reported as the field and the tag.  For each field the tags are tried in
  the order written and the first failing one is reported.  \<^verbatim>\<open>required\<close> fails on
  the zero value of the field's type: the empty string, and the number 0.
\<close>

datatype field_error = FieldError string string

definition healthTypes :: "string list" where
  "healthTypes = [''blood_pressure'', ''heart_rate'', ''weight'', ''temperature'', ''glucose'']"

definition validate_HealthRecordInput :: "HealthRecordInput \<Rightarrow> field_error list" where
  "validate_HealthRecordInput i =
     (if HealthRecordInput.Type i = '''' then [FieldError ''Type'' ''required'']
      else if HealthRecordInput.Type i \<notin> set healthTypes then [FieldError ''Type'' ''oneof'']
      else []) @
     (if HealthRecordInput.Value i = 0 then [FieldError ''Value'' ''required'']
      else if HealthRecordInput.Value i < 0 then [FieldError ''Value'' ''min'']
      else if HealthRecordInput.Value i > 500 then [FieldError ''Value'' ''max'']
      else []) @
     (if HealthRecordInput.Unit i = '''' then [FieldError ''Unit'' ''required''] else [])"

definition validate_RegisterRequest :: "env \<Rightarrow> RegisterRequest \<Rightarrow> field_error list" where
  "validate_RegisterRequest e r =
     (if RegisterRequest.Email r = '''' then [FieldError ''Email'' ''required'']
      else if \<not> isEmail e (RegisterRequest.Email r) then [FieldError ''Email'' ''email'']
      else []) @
     (if RegisterRequest.Password r = '''' then [FieldError ''Password'' ''required'']
      else if length (RegisterRequest.Password r) < 8 then [FieldError ''Password'' ''min'']
      else []) @
     (if RegisterRequest.FullName r = '''' then [FieldError ''FullName'' ''required'']
      else if length (RegisterRequest.FullName r) < 3 then [FieldError ''FullName'' ''min'']
      else [])"

definition validate_LoginRequest :: "env \<Rightarrow> LoginRequest \<Rightarrow> field_error list" where
  "validate_LoginRequest e r =
     (if LoginRequest.Email r = '''' then [FieldError ''Email'' ''required'']
      else if \<not> isEmail e (LoginRequest.Email r) then [FieldError ''Email'' ''email'']
      else []) @
     (if LoginRequest.Password r = '''' then [FieldError ''Password'' ''required''] else [])"

section \<open>The Redis store\<close>

text \<open>
  Redis is outside the repository; the commands the handlers use are modelled from its
  documented behaviour.  A string value is always the JSON text \<^verbatim>\<open>json.Marshal\<close>
  produced from one of the three structs, so it is kept as the struct it encodes.
  \<^verbatim>\<open>json.Marshal\<close> of a \<^verbatim>\<open>User\<close> leaves the password out (tag \<^verbatim>\<open>json:"-"\<close>).
\<close>

datatype rvalue = VUser User | VRecord HealthRecord | VStats HealthStats | VList "string list"

definition marshalUser :: "User \<Rightarrow> rvalue" where
  "marshalUser u = VUser (u\<lparr>User.Password := ''''\<rparr>)"

text \<open>
  \<^verbatim>\<open>json.Unmarshal\<close> into a struct fills the fields whose JSON names occur in the text,
  ignores the other names and leaves the remaining fields at their zero values.
\<close>

fun unmarshalUser :: "rvalue \<Rightarrow> User option" where
  "unmarshalUser (VUser u) = Some u"
| "unmarshalUser (VRecord r) =
     Some \<lparr>User.ID = HealthRecord.ID r, Email = '''', Password = '''', FullName = '''',
           Active = False, CreatedAt = HealthRecord.CreatedAt r, UpdatedAt = zeroTime\<rparr>"
| "unmarshalUser (VStats st) =
     Some \<lparr>User.ID = '''', Email = '''', Password = '''', FullName = '''',
           Active = False, CreatedAt = zeroTime, UpdatedAt = zeroTime\<rparr>"
| "unmarshalUser (VList xs) = None"

fun unmarshalHealthRecord :: "rvalue \<Rightarrow> HealthRecord option" where
  "unmarshalHealthRecord (VRecord r) = Some r"
| "unmarshalHealthRecord (VStats st) =
     Some \<lparr>HealthRecord.ID = '''', UserID = HealthStats.UserID st, Type = HealthStats.Type st,
           Value = 0, Unit = '''', Notes = '''', RecordedAt = zeroTime, CreatedAt = zeroTime\<rparr>"
| "unmarshalHealthRecord (VUser u) =
     Some \<lparr>HealthRecord.ID = User.ID u, UserID = '''', Type = '''',
           Value = 0, Unit = '''', Notes = '''', RecordedAt = zeroTime,
           CreatedAt = User.CreatedAt u\<rparr>"
| "unmarshalHealthRecord (VList xs) = None"

fun unmarshalHealthStats :: "rvalue \<Rightarrow> HealthStats option" where
  "unmarshalHealthStats (VStats st) = Some st"
| "unmarshalHealthStats (VRecord r) =
     Some \<lparr>HealthStats.UserID = HealthRecord.UserID r, Type = HealthRecord.Type r,
           Average = 0, Min_val = 0, Max_val = 0, Count = 0, LastRecord = zeroTime\<rparr>"
| "unmarshalHealthStats (VUser u) =
     Some \<lparr>HealthStats.UserID = '''', Type = '''',
           Average = 0, Min_val = 0, Max_val = 0, Count = 0, LastRecord = zeroTime\<rparr>"
| "unmarshalHealthStats (VList xs) = None"

record entry =
  val :: rvalue
  expireAt :: "time option"

record store =
  kv :: "string \<rightharpoonup> entry"
  clock :: time

datatype store_error = Nil | WrongType | Unavailable string

text \<open>A key whose deadline has passed is absent for every command.\<close>

definition live :: "store \<Rightarrow> string \<Rightarrow> entry option" where
  "live s k =
     (case kv s k of
        None \<Rightarrow> None
      | Some e \<Rightarrow>
          (case expireAt e of
             None \<Rightarrow> Some e
           | Some d \<Rightarrow> if clock s < d then Some e else None))"

text \<open>
  Every command takes the failure the environment schedules for it: \<open>Some d\<close> is a
  store that cannot be reached, with detail \<open>d\<close>, and the command then changes nothing.
\<close>

definition rSet :: "string option \<Rightarrow> string \<Rightarrow> rvalue \<Rightarrow> int \<Rightarrow> store \<Rightarrow> store_error option \<times> store" where
  "rSet f k v ttl s =
     (case f of
        Some d \<Rightarrow> (Some (Unavailable d), s)
      | None \<Rightarrow> (None, s\<lparr>kv := (kv s)(k \<mapsto> \<lparr>val = v, expireAt = Some (clock s + ttl)\<rparr>)\<rparr>))"

definition rGet :: "string option \<Rightarrow> string \<Rightarrow> store \<Rightarrow> store_error + rvalue" where
  "rGet f k s =
     (case f of
        Some d \<Rightarrow> Inl (Unavailable d)
      | None \<Rightarrow>
          (case live s k of
             None \<Rightarrow> Inl Nil
           | Some e \<Rightarrow> (case val e of VList xs \<Rightarrow> Inl WrongType | v \<Rightarrow> Inr v)))"

definition rDel :: "string option \<Rightarrow> string \<Rightarrow> store \<Rightarrow> store_error option \<times> store" where
  "rDel f k s =
     (case f of
        Some d \<Rightarrow> (Some (Unavailable d), s)
      | None \<Rightarrow> (None, s\<lparr>kv := (kv s)(k := None)\<rparr>))"

definition rLPush :: "string option \<Rightarrow> string \<Rightarrow> string \<Rightarrow> store \<Rightarrow> store_error option \<times> store" where
  "rLPush f k x s =
     (case f of
        Some d \<Rightarrow> (Some (Unavailable d), s)
      | None \<Rightarrow>
          (case live s k of
             None \<Rightarrow> (None, s\<lparr>kv := (kv s)(k \<mapsto> \<lparr>val = VList [x], expireAt = None\<rparr>)\<rparr>)
           | Some e \<Rightarrow>
               (case val e of
                  VList xs \<Rightarrow> (None, s\<lparr>kv := (kv s)(k \<mapsto> e\<lparr>val := VList (x # xs)\<rparr>)\<rparr>)
                | _ \<Rightarrow> (Some WrongType, s))))"

definition rExpire :: "string option \<Rightarrow> string \<Rightarrow> int \<Rightarrow> store \<Rightarrow> store_error option \<times> store" where
  "rExpire f k ttl s =
     (case f of
        Some d \<Rightarrow> (Some (Unavailable d), s)
      | None \<Rightarrow>
          (case live s k of
             None \<Rightarrow> (None, s)
           | Some e \<Rightarrow> (None, s\<lparr>kv := (kv s)(k \<mapsto> e\<lparr>expireAt := Some (clock s + ttl)\<rparr>)\<rparr>)))"

text \<open>\<^verbatim>\<open>LRANGE key start stop\<close>: both ends inclusive, a negative index counts from the
  tail, and indices out of range are clamped.\<close>

definition lrange :: "'a list \<Rightarrow> int \<Rightarrow> int \<Rightarrow> 'a list" where
  "lrange xs start stop =
     (let n = int (length xs);
          s1 = (if start < 0 then n + start else start);
          e1 = (if stop < 0 then n + stop else stop);
          s2 = (if s1 < 0 then 0 else s1)
      in if s2 > e1 \<or> s2 \<ge> n then []
         else let e2 = (if e1 \<ge> n then n - 1 else e1)
              in take (nat (e2 - s2 + 1)) (drop (nat s2) xs))"

definition rLRange :: "string option \<Rightarrow> string \<Rightarrow> int \<Rightarrow> int \<Rightarrow> store \<Rightarrow> store_error + string list" where
  "rLRange f k start stop s =
     (case f of
        Some d \<Rightarrow> Inl (Unavailable d)
      | None \<Rightarrow>
          (case live s k of
             None \<Rightarrow> Inr []
           | Some e \<Rightarrow>
               (case val e of VList xs \<Rightarrow> Inr (lrange xs start stop) | _ \<Rightarrow> Inl WrongType)))"

text \<open>\<^verbatim>\<open>LREM key 1 x\<close> removes the first occurrence; a list that becomes empty is deleted.\<close>

definition rLRem1 :: "string option \<Rightarrow> string \<Rightarrow> string \<Rightarrow> store \<Rightarrow> store_error option \<times> store" where
  "rLRem1 f k x s =
     (case f of
        Some d \<Rightarrow> (Some (Unavailable d), s)
      | None \<Rightarrow>
          (case live s k of
             None \<Rightarrow> (None, s)
           | Some e \<Rightarrow>
               (case val e of
                  VList xs \<Rightarrow>
                    (if remove1 x xs = [] then (None, s\<lparr>kv := (kv s)(k := None)\<rparr>)
                     else (None, s\<lparr>kv := (kv s)(k \<mapsto> e\<lparr>val := VList (remove1 x xs)\<rparr>)\<rparr>))
                | _ \<Rightarrow> (Some WrongType, s))))"

text \<open>The keys, as \<^verbatim>\<open>fmt.Sprintf\<close> builds them.\<close>

definition userKey :: "string \<Rightarrow> string" where
  "userKey email = ''user:'' @ email"

definition recordKey :: "string \<Rightarrow> string \<Rightarrow> string" where
  "recordKey userID recordID = ''health:'' @ userID @ '':'' @ recordID"

definition listKey :: "string \<Rightarrow> string" where
  "listKey userID = ''health:'' @ userID @ '':list''"

definition statsKey :: "string \<Rightarrow> string \<Rightarrow> string" where
  "statsKey userID recordType = ''health:'' @ userID @ '':stats:'' @ recordType"

section \<open>HTTP requests and responses\<close>

text \<open>
  A request as a handler sees it: the method, the declared content length, the user the
  JWT middleware put into the context (if any), the query parameters (\<^verbatim>\<open>Get\<close> gives the
  empty string for an absent one) and the result of decoding the JSON body into the
  handler's request struct (\<open>None\<close> when decoding fails).
\<close>

record 'b Request =
  Method :: string
  ContentLength :: int
  CtxUser :: "string option"
  Query :: "string \<Rightarrow> string"
  Body :: "'b option"

record AuthResponse =
  Token :: string
  ExpiresIn :: int
  User :: User

datatype body =
    PlainText string
  | ErrorJSON string
  | ValidationJSON "field_error list"
  | MessageJSON string
  | RecordJSON HealthRecord
  | RecordsJSON "HealthRecord list"
  | StatsJSON HealthStats
  | AuthJSON AuthResponse
  | TokenJSON string

record response =
  Status :: nat
  Headers :: "(string \<times> string) list"
  Payload :: body

text \<open>\<^verbatim>\<open>http.Error(w, msg, code)\<close>.\<close>

definition httpError :: "string \<Rightarrow> nat \<Rightarrow> response" where
  "httpError msg code =
     \<lparr>Status = code,
      Headers = [(''Content-Type'', ''text/plain; charset=utf-8''),
                 (''X-Content-Type-Options'', ''nosniff'')],
      Payload = PlainText msg\<rparr>"

text \<open>\<^verbatim>\<open>w.WriteHeader(code)\<close> followed by encoding \<^verbatim>\<open>{"error": msg}\<close>.\<close>

definition jsonError :: "nat \<Rightarrow> string \<Rightarrow> response" where
  "jsonError code msg = \<lparr>Status = code, Headers = [], Payload = ErrorJSON msg\<rparr>"

definition jsonOK :: "nat \<Rightarrow> (string \<times> string) list \<Rightarrow> body \<Rightarrow> response" where
  "jsonOK code hs b =
     \<lparr>Status = code, Headers = (''Content-Type'', ''application/json'') # hs, Payload = b\<rparr>"

section \<open>security.go\<close>

definition MaxRequestBodySize :: int where
  "MaxRequestBodySize = 10 * 1024 * 1024"

text \<open>\<open>Some\<close> is the response the function wrote itself before returning false.\<close>

definition ValidateRequestSize :: "'b Request \<Rightarrow> response option" where
  "ValidateRequestSize r =
     (if ContentLength r > MaxRequestBodySize
      then Some (httpError ''Request body too large'' 413) else None)"

definition GetJWTSecret :: "env \<Rightarrow> string" where
  "GetJWTSecret e = JWTSecret e"

section \<open>password.go\<close>

definition HashPassword :: "env \<Rightarrow> string \<Rightarrow> string option" where
  "HashPassword e password = bcryptGenerate e password"

definition VerifyPassword :: "env \<Rightarrow> string \<Rightarrow> string \<Rightarrow> bool" where
  "VerifyPassword e hash password = bcryptCompare e hash password"

section \<open>The JWT middleware and token generation\<close>

definition NewWithClaims :: "alg \<Rightarrow> RegisteredClaims \<Rightarrow> Token" where
  "NewWithClaims m claims = \<lparr>Token.Method = m, Claims = claims, Signature = ''''\<rparr>"

text \<open>The token with the signature its method computes over header and claims.\<close>

definition signedToken :: "env \<Rightarrow> Token \<Rightarrow> string \<Rightarrow> Token" where
  "signedToken e tok key =
     tok\<lparr>Signature := hmac e (Token.Method tok) key (Token.Method tok, Claims tok)\<rparr>"

text \<open>\<^verbatim>\<open>SignedString\<close>: with an HMAC method and a byte-slice key it does not fail; a
  method of another family rejects the key.\<close>

definition SignedString :: "env \<Rightarrow> Token \<Rightarrow> string \<Rightarrow> string + string" where
  "SignedString e tok key =
     (if Token.Method tok \<in> {HS256, HS384, HS512}
      then Inr (compact e (signedToken e tok key))
      else Inl ''key is of invalid type'')"

definition generateJWT :: "env \<Rightarrow> string \<Rightarrow> string + string" where
  "generateJWT e userID =
     (let claims = \<lparr>Subject = userID, ExpiresAt = Some (Now e + 1 * hour)\<rparr>;
          token = NewWithClaims HS256 claims
      in SignedString e token (GetJWTSecret e))"

text \<open>
  \<^verbatim>\<open>jwt.ParseWithClaims\<close> with a key function that returns the secret for every
  method: the text must parse, the method must be one that accepts a byte-slice key,
  an expiry that is present must lie after now, and the signature must be the HMAC of
  header and claims.  The result is the claims of a token with \<^verbatim>\<open>Valid\<close> set.
\<close>

definition ParseWithClaims :: "env \<Rightarrow> string \<Rightarrow> RegisteredClaims option" where
  "ParseWithClaims e tokenStr =
     (case parseCompact e tokenStr of
        None \<Rightarrow> None
      | Some tok \<Rightarrow>
          if Token.Method tok \<in> {HS256, HS384, HS512}
             \<and> (case ExpiresAt (Claims tok) of None \<Rightarrow> True | Some expiry \<Rightarrow> Now e < expiry)
             \<and> Signature tok = hmac e (Token.Method tok) (GetJWTSecret e) (Token.Method tok, Claims tok)
          then Some (Claims tok) else None)"

text \<open>\<open>Inr\<close> is the user stored under the context key \<^verbatim>\<open>"user"\<close> for the next handler.\<close>

definition jwtMiddleware :: "env \<Rightarrow> string \<Rightarrow> response + string" where
  "jwtMiddleware e authHeader =
     (if \<not> prefix ''Bearer '' authHeader then Inl (httpError ''Unauthorized'' 401)
      else let tokenStr = drop (length ''Bearer '') authHeader
           in case ParseWithClaims e tokenStr of
                None \<Rightarrow> Inl (httpError ''Unauthorized'' 401)
              | Some claims \<Rightarrow> Inr (Subject claims))"

section \<open>Formatting and scanning decimal integers\<close>

text \<open>
  \<^verbatim>\<open>fmt.Sscanf(l, "%d", &limit)\<close>: leading blanks are skipped, an optional sign and then
  the longest run of decimal digits are read; what follows is left unread.  Without a
  digit, or with a value outside the 64-bit range, the scan fails and the variable keeps
  its value.  \<open>None\<close> is the failed scan.
\<close>

definition isBlank :: "char \<Rightarrow> bool" where
  "isBlank c = (c \<in> {CHR '' '', CHR 0x09, CHR 0x0B, CHR 0x0C, CHR 0x0D})"

definition isDigit :: "char \<Rightarrow> bool" where
  "isDigit c = (c \<in> set ''0123456789'')"

definition digitVal :: "char \<Rightarrow> nat" where
  "digitVal c = of_char c - 48"

definition Sscanf_d :: "string \<Rightarrow> int option" where
  "Sscanf_d l =
     (let cs = dropWhile isBlank l;
          neg = (cs \<noteq> [] \<and> hd cs = CHR ''-'');
          ds = (if cs \<noteq> [] \<and> (hd cs = CHR ''-'' \<or> hd cs = CHR ''+'') then tl cs else cs);
          tok = takeWhile isDigit ds;
          n = int (foldl (\<lambda>a c. 10 * a + digitVal c) 0 tok);
          v = (if neg then - n else n)
      in if tok = [] then None
         else if v < - (2 ^ 63) \<or> 2 ^ 63 \<le> v then None
         else Some v)"

text \<open>\<^verbatim>\<open>fmt.Sprintf("%d", n)\<close> for a length.\<close>

fun Sprintf_d :: "nat \<Rightarrow> string" where
  "Sprintf_d n =
     (if n < 10 then [char_of (48 + n)]
      else Sprintf_d (n div 10) @ [char_of (48 + n mod 10)])"

section \<open>health\_handler.go\<close>

definition calculateAverage :: "real list \<Rightarrow> real" where
  "calculateAverage values =
     (if length values = 0 then 0
      else foldl (\<lambda>sum v. sum + v) 0 values / real (length values))"

definition calculateMin :: "real list \<Rightarrow> real" where
  "calculateMin values =
     (case values of
        [] \<Rightarrow> 0
      | v0 # _ \<Rightarrow> foldl (\<lambda>m v. if v < m then v else m) v0 values)"

definition calculateMax :: "real list \<Rightarrow> real" where
  "calculateMax values =
     (case values of
        [] \<Rightarrow> 0
      | v0 # _ \<Rightarrow> foldl (\<lambda>m v. if v > m then v else m) v0 values)"

definition createHealthRecordHandler ::
  "env \<Rightarrow> store \<Rightarrow> HealthRecordRequest Request \<Rightarrow> response \<times> store" where
  "createHealthRecordHandler e s r =
     (if Request.Method r \<noteq> ''POST'' then (httpError ''Method not allowed'' 405, s)
      else case ValidateRequestSize r of
        Some resp \<Rightarrow> (resp, s)
      | None \<Rightarrow>
     (case CtxUser r of
        None \<Rightarrow> (jsonError 401 ''Unauthorized'', s)
      | Some userID \<Rightarrow>
     (case Body r of
        None \<Rightarrow> (jsonError 400 ''Invalid request body'', s)
      | Some req \<Rightarrow>
     (let input = \<lparr>HealthRecordInput.Type = HealthRecordRequest.Type req,
                   Value = HealthRecordRequest.Value req,
                   Unit = HealthRecordRequest.Unit req\<rparr>
      in if validate_HealthRecordInput input \<noteq> []
         then (\<lparr>Status = 400, Headers = [],
                Payload = ValidationJSON (validate_HealthRecordInput input)\<rparr>, s)
         else
           let recordedAt =
                 (if HealthRecordRequest.RecordedAt req \<noteq> ''''
                  then (case parseRFC3339 e (HealthRecordRequest.RecordedAt req) of
                          Some t \<Rightarrow> t
                        | None \<Rightarrow> Now e)
                  else Now e);
               record = \<lparr>HealthRecord.ID = NewUUID e,
                         UserID = userID,
                         Type = HealthRecordRequest.Type req,
                         Value = HealthRecordRequest.Value req,
                         Unit = HealthRecordRequest.Unit req,
                         Notes = HealthRecordRequest.Notes req,
                         RecordedAt = recordedAt,
                         CreatedAt = Now e\<rparr>;
               ttl = 30 * 24 * hour
           in case rSet (StoreErr e 0) (recordKey userID (HealthRecord.ID record))
                     (VRecord record) ttl s of
                (Some err, s') \<Rightarrow> (jsonError 500 ''Failed to create record'', s')
              | (None, s1) \<Rightarrow>
                  let s2 = snd (rLPush (StoreErr e 1) (listKey userID) (HealthRecord.ID record) s1);
                      s3 = snd (rExpire (StoreErr e 2) (listKey userID) ttl s2);
                      s4 = snd (rDel (StoreErr e 3)
                                  (statsKey userID (HealthRecordRequest.Type req)) s3)
                  in (jsonOK 201 [] (RecordJSON record), s4)))))"

text \<open>The loop of the list handler; \<open>n\<close> numbers the Redis command of the next read.\<close>

fun fetchRecords ::
  "(nat \<Rightarrow> string option) \<Rightarrow> nat \<Rightarrow> store \<Rightarrow> string \<Rightarrow> string list \<Rightarrow> HealthRecord list" where
  "fetchRecords f n s userID [] = []"
| "fetchRecords f n s userID (i # ids) =
     (case rGet (f n) (recordKey userID i) s of
        Inr recordJSON \<Rightarrow>
          (case unmarshalHealthRecord recordJSON of
             Some record \<Rightarrow> record # fetchRecords f (Suc n) s userID ids
           | None \<Rightarrow> fetchRecords f (Suc n) s userID ids)
      | Inl err \<Rightarrow> fetchRecords f (Suc n) s userID ids)"

definition requestedLimit :: "string \<Rightarrow> int" where
  "requestedLimit l =
     (if l \<noteq> ''''
      then (let limit = (case Sscanf_d l of Some n \<Rightarrow> n | None \<Rightarrow> 20)
            in if limit > 100 then 100 else limit)
      else 20)"

definition getHealthRecordsHandler ::
  "env \<Rightarrow> store \<Rightarrow> 'b Request \<Rightarrow> response \<times> store" where
  "getHealthRecordsHandler e s r =
     (if Request.Method r \<noteq> ''GET'' then (httpError ''Method not allowed'' 405, s)
      else case CtxUser r of
        None \<Rightarrow> (jsonError 401 ''Unauthorized'', s)
      | Some userID \<Rightarrow>
     (let limit = requestedLimit (Query r ''limit'')
      in case rLRange (StoreErr e 0) (listKey userID) 0 (limit - 1) s of
           Inl err \<Rightarrow> (jsonOK 200 [] (RecordsJSON []), s)
         | Inr recordIDs \<Rightarrow>
             let records = fetchRecords (StoreErr e) 1 s userID recordIDs
             in (jsonOK 200 [(''X-Total-Count'', Sprintf_d (length records))]
                   (RecordsJSON records), s)))"

text \<open>
  The loop of the stats handler over the record identifiers, carrying \<^verbatim>\<open>values\<close> and
  \<^verbatim>\<open>lastRecord\<close>; \<open>n\<close> numbers the Redis command of the next read.
\<close>

fun collectValues ::
  "(nat \<Rightarrow> string option) \<Rightarrow> nat \<Rightarrow> store \<Rightarrow> string \<Rightarrow> string \<Rightarrow> string list
     \<Rightarrow> real list \<times> time \<Rightarrow> real list \<times> time" where
  "collectValues f n s userID recordType [] acc = acc"
| "collectValues f n s userID recordType (i # ids) (values, lastRecord) =
     collectValues f (Suc n) s userID recordType ids
       (case rGet (f n) (recordKey userID i) s of
          Inr recordJSON \<Rightarrow>
            (case unmarshalHealthRecord recordJSON of
               Some record \<Rightarrow>
                 if HealthRecord.Type record = recordType
                 then (values @ [HealthRecord.Value record],
                       if HealthRecord.RecordedAt record > lastRecord
                       then HealthRecord.RecordedAt record else lastRecord)
                 else (values, lastRecord)
             | None \<Rightarrow> (values, lastRecord))
        | Inl err \<Rightarrow> (values, lastRecord))"

text \<open>\<^verbatim>\<open>var stats HealthStats\<close>.\<close>

definition zeroStats :: HealthStats where
  "zeroStats = \<lparr>HealthStats.UserID = '''', Type = '''', Average = 0, Min_val = 0, Max_val = 0,
                Count = 0, LastRecord = zeroTime\<rparr>"

text \<open>The part of the stats handler after the cache lookup (``cache miss'').\<close>

definition computeStats :: "env \<Rightarrow> store \<Rightarrow> string \<Rightarrow> string \<Rightarrow> response \<times> store" where
  "computeStats e s userID recordType =
     (let recordIDs = (case rLRange (StoreErr e 1) (listKey userID) 0 (- 1) s of
                         Inr ids \<Rightarrow> ids
                       | Inl err \<Rightarrow> []);
          (values, lastRecord) =
             collectValues (StoreErr e) 2 s userID recordType recordIDs ([], zeroTime)
      in if length values > 0
         then
           let stats = \<lparr>HealthStats.UserID = userID,
                        Type = recordType,
                        Average = calculateAverage values,
                        Min_val = calculateMin values,
                        Max_val = calculateMax values,
                        Count = int (length values),
                        LastRecord = lastRecord\<rparr>;
               s' = snd (rSet (StoreErr e (2 + length recordIDs))
                           (statsKey userID recordType) (VStats stats) (1 * hour) s)
           in (jsonOK 200 [(''X-Cache'', ''MISS'')] (StatsJSON stats), s')
         else (jsonOK 200 [(''X-Cache'', ''MISS'')] (StatsJSON zeroStats), s))"

definition getHealthStatsHandler ::
  "env \<Rightarrow> store \<Rightarrow> 'b Request \<Rightarrow> response \<times> store" where
  "getHealthStatsHandler e s r =
     (if Request.Method r \<noteq> ''GET'' then (httpError ''Method not allowed'' 405, s)
      else case CtxUser r of
        None \<Rightarrow> (jsonError 401 ''Unauthorized'', s)
      | Some userID \<Rightarrow>
     (let recordType = Query r ''type''
      in if recordType = '''' then (jsonError 400 ''Missing 'type' parameter'', s)
         else
           case rGet (StoreErr e 0) (statsKey userID recordType) s of
             Inr statsJSON \<Rightarrow>
               (case unmarshalHealthStats statsJSON of
                  Some stats \<Rightarrow> (jsonOK 200 [(''X-Cache'', ''HIT'')] (StatsJSON stats), s)
                | None \<Rightarrow> computeStats e s userID recordType)
           | Inl err \<Rightarrow> computeStats e s userID recordType))"

definition deleteHealthRecordHandler ::
  "env \<Rightarrow> store \<Rightarrow> 'b Request \<Rightarrow> response \<times> store" where
  "deleteHealthRecordHandler e s r =
     (if Request.Method r \<noteq> ''DELETE'' then (httpError ''Method not allowed'' 405, s)
      else case CtxUser r of
        None \<Rightarrow> (jsonError 401 ''Unauthorized'', s)
      | Some userID \<Rightarrow>
     (let recordID = Query r ''id''
      in if recordID = '''' then (jsonError 400 ''Missing 'id' parameter'', s)
         else
           case rDel (StoreErr e 0) (recordKey userID recordID) s of
             (Some err, s') \<Rightarrow> (jsonError 500 ''Failed to delete record'', s')
           | (None, s1) \<Rightarrow>
               let s2 = snd (rLRem1 (StoreErr e 1) (listKey userID) recordID s1)
               in (jsonOK 200 [] (MessageJSON ''Record deleted successfully''), s2)))"

section \<open>The authentication handlers\<close>

definition registerHandler ::
  "env \<Rightarrow> store \<Rightarrow> RegisterRequest Request \<Rightarrow> response \<times> store" where
  "registerHandler e s r =
     (if Request.Method r \<noteq> ''POST'' then (httpError ''Method not allowed'' 405, s)
      else case ValidateRequestSize r of
        Some resp \<Rightarrow> (resp, s)
      | None \<Rightarrow>
     (case Body r of
        None \<Rightarrow> (jsonError 400 ''Invalid request body'', s)
      | Some req \<Rightarrow>
     (if validate_RegisterRequest e req \<noteq> []
      then (\<lparr>Status = 400, Headers = [],
             Payload = ValidationJSON (validate_RegisterRequest e req)\<rparr>, s)
      else
        let userKey = userKey (RegisterRequest.Email req)
        in case rGet (StoreErr e 0) userKey s of
             Inr found \<Rightarrow> (jsonError 409 ''Email already registered'', s)
           | Inl err \<Rightarrow>
        (case HashPassword e (RegisterRequest.Password req) of
           None \<Rightarrow> (jsonError 500 ''Failed to process registration'', s)
         | Some hashedPassword \<Rightarrow>
        (let user = \<lparr>User.ID = NewUUID e,
                     Email = RegisterRequest.Email req,
                     Password = hashedPassword,
                     FullName = RegisterRequest.FullName req,
                     Active = True,
                     CreatedAt = Now e,
                     UpdatedAt = Now e\<rparr>;
             ttl = 24 * hour
         in case rSet (StoreErr e 1) userKey (marshalUser user) ttl s of
              (Some err, s') \<Rightarrow> (jsonError 500 ''Failed to register user'', s')
            | (None, s1) \<Rightarrow>
                (case generateJWT e (User.ID user) of
                   Inl err \<Rightarrow> (jsonError 500 ''Failed to generate token'', s1)
                 | Inr token \<Rightarrow>
                     (jsonOK 201 []
                        (AuthJSON \<lparr>Token = token, ExpiresIn = 3600,
                                   User = \<lparr>User.ID = User.ID user,
                                           Email = User.Email user,
                                           Password = '''',
                                           FullName = User.FullName user,
                                           Active = User.Active user,
                                           CreatedAt = zeroTime,
                                           UpdatedAt = zeroTime\<rparr>\<rparr>), s1)))))))"

definition loginHandler ::
  "env \<Rightarrow> store \<Rightarrow> LoginRequest Request \<Rightarrow> response \<times> store" where
  "loginHandler e s r =
     (if Request.Method r \<noteq> ''POST'' then (httpError ''Method not allowed'' 405, s)
      else case ValidateRequestSize r of
        Some resp \<Rightarrow> (resp, s)
      | None \<Rightarrow>
     (case Body r of
        None \<Rightarrow> (jsonError 400 ''Invalid request body'', s)
      | Some req \<Rightarrow>
     (if validate_LoginRequest e req \<noteq> []
      then (\<lparr>Status = 400, Headers = [],
             Payload = ValidationJSON (validate_LoginRequest e req)\<rparr>, s)
      else
        case rGet (StoreErr e 0) (userKey (LoginRequest.Email req)) s of
          Inl err \<Rightarrow> (jsonError 401 ''Invalid email or password'', s)
        | Inr userJSON \<Rightarrow>
        (case unmarshalUser userJSON of
           None \<Rightarrow> (jsonError 500 ''Failed to process login'', s)
         | Some user \<Rightarrow>
             if \<not> VerifyPassword e (User.Password user) (LoginRequest.Password req)
             then (jsonError 401 ''Invalid email or password'', s)
             else if \<not> User.Active user
             then (jsonError 403 ''User account is inactive'', s)
             else
               (case generateJWT e (User.ID user) of
                  Inl err \<Rightarrow> (jsonError 500 ''Failed to generate token'', s)
                | Inr token \<Rightarrow>
                    (jsonOK 200 []
                       (AuthJSON \<lparr>Token = token, ExpiresIn = 3600,
                                  User = \<lparr>User.ID = User.ID user,
                                          Email = User.Email user,
                                          Password = '''',
                                          FullName = User.FullName user,
                                          Active = User.Active user,
                                          CreatedAt = zeroTime,
                                          UpdatedAt = zeroTime\<rparr>\<rparr>), s))))))"

section \<open>Identifiers and the stored records of a user\<close>

text \<open>\<^verbatim>\<open>uuid.New().String()\<close> is 36 characters long: hexadecimal digits and hyphens.\<close>

definition isUUID :: "string \<Rightarrow> bool" where
  "isUUID x = (length x = 36 \<and> list_all (\<lambda>c. c \<in> set ''0123456789abcdef-'') x)"

text \<open>
  The notions the statements below use for the contents of a store: the identifiers the
  index of a user lists (newest first), the record stored under an identifier, and the
  user's stored records of a type, in index order.
\<close>

definition recordIndex :: "store \<Rightarrow> string \<Rightarrow> string list" where
  "recordIndex s userID =
     (case live s (listKey userID) of
        None \<Rightarrow> []
      | Some en \<Rightarrow> (case val en of VList ids \<Rightarrow> ids | _ \<Rightarrow> []))"

definition storedRecord :: "store \<Rightarrow> string \<Rightarrow> string \<Rightarrow> HealthRecord option" where
  "storedRecord s userID i =
     (case live s (recordKey userID i) of
        None \<Rightarrow> None
      | Some en \<Rightarrow> unmarshalHealthRecord (val en))"

definition recordsOfType :: "store \<Rightarrow> string \<Rightarrow> string \<Rightarrow> HealthRecord list" where
  "recordsOfType s userID recordType =
     filter (\<lambda>r. HealthRecord.Type r = recordType)
       (List.map_filter (storedRecord s userID) (recordIndex s userID))"

text \<open>The aggregate the stats handler builds from the records it collected.\<close>

definition statsOver :: "string \<Rightarrow> string \<Rightarrow> HealthRecord list \<Rightarrow> HealthStats" where
  "statsOver userID recordType rs =
     \<lparr>HealthStats.UserID = userID,
      Type = recordType,
      Average = calculateAverage (map HealthRecord.Value rs),
      Min_val = calculateMin (map HealthRecord.Value rs),
      Max_val = calculateMax (map HealthRecord.Value rs),
      Count = int (length rs),
      LastRecord = foldl (\<lambda>lastRecord r. if HealthRecord.RecordedAt r > lastRecord
                                         then HealthRecord.RecordedAt r else lastRecord)
                     zeroTime rs\<rparr>"

text \<open>The record the create handler builds for a validated request.\<close>

definition recordFor :: "env \<Rightarrow> string \<Rightarrow> HealthRecordRequest \<Rightarrow> HealthRecord" where
  "recordFor e userID req =
     \<lparr>HealthRecord.ID = NewUUID e,
      UserID = userID,
      Type = HealthRecordRequest.Type req,
      Value = HealthRecordRequest.Value req,
      Unit = HealthRecordRequest.Unit req,
      Notes = HealthRecordRequest.Notes req,
      RecordedAt =
        (if HealthRecordRequest.RecordedAt req \<noteq> ''''
         then (case parseRFC3339 e (HealthRecordRequest.RecordedAt req) of
                 Some t \<Rightarrow> t
               | None \<Rightarrow> Now e)
         else Now e),
      CreatedAt = Now e\<rparr>"

text \<open>A request that reaches the record write of the create handler.\<close>

definition validCreate :: "HealthRecordRequest Request \<Rightarrow> string \<Rightarrow> HealthRecordRequest \<Rightarrow> bool" where
  "validCreate r userID req =
     (Request.Method r = ''POST'' \<and> ContentLength r \<le> MaxRequestBodySize
      \<and> CtxUser r = Some userID \<and> Body r = Some req
      \<and> validate_HealthRecordInput
            \<lparr>HealthRecordInput.Type = HealthRecordRequest.Type req,
             Value = HealthRecordRequest.Value req,
             Unit = HealthRecordRequest.Unit req\<rparr> = [])"

text \<open>The index key of a user holds a list or nothing.\<close>

definition indexIsList :: "store \<Rightarrow> string \<Rightarrow> bool" where
  "indexIsList s userID =
     (case live s (listKey userID) of
        None \<Rightarrow> True
      | Some en \<Rightarrow> (case val en of VList ids \<Rightarrow> True | _ \<Rightarrow> False))"

section \<open>handlers.go: the legacy login\<close>


section \<open>Histories of the store\<close>










section \<open>Fixtures for concrete runs\<close>

text \<open>
  A concrete environment with toy stand-ins for the library primitives (its token parser
  knows the one token issued to user \<open>u1\<close> at the environment's instant), an empty
  store and well-formed requests; the concrete instances below are evaluated on them.
\<close>

definition demoEnv :: env where
  "demoEnv =
     \<lparr>hmac = (\<lambda>m key input. ''sig-'' @ key @ ''-'' @ Subject (snd input)),
      compact = (\<lambda>tok. ''h.'' @ Subject (Claims tok) @ ''.'' @ Signature tok),
      parseCompact =
        (\<lambda>t. if t = ''h.u1.sig-your-secret-key-change-me-in-production-u1''
             then Some \<lparr>Token.Method = HS256,
                        Claims = \<lparr>Subject = ''u1'', ExpiresAt = Some 1761303600\<rparr>,
                        Signature = ''sig-your-secret-key-change-me-in-production-u1''\<rparr>
             else None),
      bcryptGenerate = (\<lambda>p. Some (''$2a$12$'' @ p)),
      bcryptCompare = (\<lambda>h p. h = ''$2a$12$'' @ p),
      isEmail = (\<lambda>a. CHR ''@'' \<in> set a),
      parseRFC3339 = (\<lambda>t. if t = ''2025-10-23T10:00:00Z'' then Some 1761213600 else None),
      Now = 1761300000,
      NewUUID = ''123e4567-e89b-42d3-a456-426614174000'',
      JWTSecret = ''your-secret-key-change-me-in-production'',
      StoreErr = (\<lambda>n. None)\<rparr>"

definition emptyStore :: store where
  "emptyStore = \<lparr>kv = Map.empty, clock = 1761300000\<rparr>"

definition heartRateRequest :: "real \<Rightarrow> HealthRecordRequest Request" where
  "heartRateRequest v =
     \<lparr>Request.Method = ''POST'', ContentLength = 64, CtxUser = Some ''u1'',
      Query = (\<lambda>p. ''''),
      Body = Some \<lparr>HealthRecordRequest.Type = ''heart_rate'', Value = v, Unit = ''bpm'',
                   Notes = '''', RecordedAt = ''''\<rparr>\<rparr>"

definition registerRequest :: "RegisterRequest Request" where
  "registerRequest =
     \<lparr>Request.Method = ''POST'', ContentLength = 80, CtxUser = None,
      Query = (\<lambda>p. ''''),
      Body = Some \<lparr>RegisterRequest.Email = ''ann@example.org'',
                   Password = ''correct-horse'', FullName = ''Ann Lee''\<rparr>\<rparr>"

definition loginRequest :: "string \<Rightarrow> string \<Rightarrow> LoginRequest Request" where
  "loginRequest email password =
     \<lparr>Request.Method = ''POST'', ContentLength = 60, CtxUser = None,
      Query = (\<lambda>p. ''''),
      Body = Some \<lparr>LoginRequest.Email = email, Password = password\<rparr>\<rparr>"

definition registeredStore :: store where
  "registeredStore = snd (registerHandler demoEnv emptyStore registerRequest)"

definition demoEnv2 :: env where
  "demoEnv2 = demoEnv\<lparr>NewUUID := ''123e4567-e89b-42d3-a456-426614174001''\<rparr>"

definition demoEnv3 :: env where
  "demoEnv3 = demoEnv\<lparr>NewUUID := ''123e4567-e89b-42d3-a456-426614174002''\<rparr>"

definition store60 :: store where
  "store60 = snd (createHealthRecordHandler demoEnv emptyStore (heartRateRequest 60))"



definition heartRateBody :: "real \<Rightarrow> HealthRecordRequest" where
  "heartRateBody v =
     \<lparr>HealthRecordRequest.Type = ''heart_rate'', Value = v, Unit = ''bpm'',
      Notes = '''', RecordedAt = ''''\<rparr>"

definition statsRequest :: "string \<Rightarrow> unit Request" where
  "statsRequest t =
     \<lparr>Request.Method = ''GET'', ContentLength = 0, CtxUser = Some ''u1'',
      Query = (\<lambda>p. if p = ''type'' then t else ''''), Body = None\<rparr>"

text \<open>A store whose index for user \<open>u1\<close> lists 101 records, all present.\<close>

definition idOf :: "nat \<Rightarrow> string" where
  "idOf n = ''123e4567-e89b-42d3-a456-4266'' @ Sprintf_d (10000000 + n)"

definition bigStore :: store where
  "bigStore =
     \<lparr>kv = (\<lambda>k. if k = listKey ''u1''
                then Some \<lparr>val = VList (map idOf [0..<101]), expireAt = None\<rparr>
                else if prefix ''health:u1:123e4567-'' k
                then Some \<lparr>val = VRecord \<lparr>HealthRecord.ID = drop 10 k, UserID = ''u1'',
                                          Type = ''heart_rate'', Value = 72, Unit = ''bpm'',
                                          Notes = '''', RecordedAt = 1761300000,
                                          CreatedAt = 1761300000\<rparr>,
                            expireAt = None\<rparr>
                else None),
      clock = 1761300000\<rparr>"

definition listRequest :: "string \<Rightarrow> unit Request" where
  "listRequest l =
     \<lparr>Request.Method = ''GET'', ContentLength = 0, CtxUser = Some ''u1'',
      Query = (\<lambda>p. if p = ''limit'' then l else ''''), Body = None\<rparr>"

text \<open>The environment of a request during which Redis cannot be reached.\<close>

definition downEnv :: env where
  "downEnv = demoEnv\<lparr>StoreErr := (\<lambda>n. Some ''dial tcp 127.0.0.1:6379: connect: connection refused'')\<rparr>"

definition deleteRequest :: "string \<Rightarrow> unit Request" where
  "deleteRequest i =
     \<lparr>Request.Method = ''DELETE'', ContentLength = 0, CtxUser = Some ''u1'',
      Query = (\<lambda>p. if p = ''id'' then i else ''''), Body = None\<rparr>"





section \<open>Facts about the store commands and the keys\<close>

lemma kv_rSet_other: "k' \<noteq> k \<Longrightarrow> kv (snd (rSet f k v t s)) k' = kv s k'"
  by (auto simp: rSet_def split: option.splits)

lemma kv_rDel_other: "k' \<noteq> k \<Longrightarrow> kv (snd (rDel f k s)) k' = kv s k'"
  by (auto simp: rDel_def split: option.splits)

lemma kv_rLPush_other: "k' \<noteq> k \<Longrightarrow> kv (snd (rLPush f k x s)) k' = kv s k'"
  by (auto simp: rLPush_def split: option.splits rvalue.splits)

lemma kv_rExpire_other: "k' \<noteq> k \<Longrightarrow> kv (snd (rExpire f k t s)) k' = kv s k'"
  by (auto simp: rExpire_def split: option.splits)

lemma kv_rLRem1_other: "k' \<noteq> k \<Longrightarrow> kv (snd (rLRem1 f k x s)) k' = kv s k'"
  by (auto simp: rLRem1_def split: option.splits rvalue.splits)

lemma clock_rSet: "clock (snd (rSet f k v t s)) = clock s"
  by (auto simp: rSet_def split: option.splits)

lemma clock_rDel: "clock (snd (rDel f k s)) = clock s"
  by (auto simp: rDel_def split: option.splits)

lemma clock_rLPush: "clock (snd (rLPush f k x s)) = clock s"
  by (auto simp: rLPush_def split: option.splits rvalue.splits)

lemma clock_rExpire: "clock (snd (rExpire f k t s)) = clock s"
  by (auto simp: rExpire_def split: option.splits)

lemma clock_rLRem1: "clock (snd (rLRem1 f k x s)) = clock s"
  by (auto simp: rLRem1_def split: option.splits rvalue.splits)

lemma isUUID_no_colon:
  assumes "isUUID x"
  shows "CHR '':'' \<notin> set x"
proof
  assume "CHR '':'' \<in> set x"
  with assms have "CHR '':'' \<in> set ''0123456789abcdef-''"
    unfolding isUUID_def list_all_iff by blast
  then show False by simp
qed

lemma recordKey_uuid_not_listKey: "isUUID x \<Longrightarrow> recordKey u x \<noteq> listKey u"
  by (auto simp: isUUID_def recordKey_def listKey_def)

lemma recordKey_uuid_not_statsKey: "isUUID x \<Longrightarrow> recordKey u x \<noteq> statsKey u t"
  using isUUID_no_colon[of x] by (auto simp: recordKey_def statsKey_def)

lemma listKey_not_statsKey: "listKey u \<noteq> statsKey u t"
  by (auto simp: listKey_def statsKey_def)



section \<open>Validation of the value at record creation\<close>

text \<open>
  C2 (the part the code does not satisfy).  A create request that reaches validation
  with \<open>value = 0\<close> is answered 400 and nothing is stored, whatever its other fields:
  the tag \<^verbatim>\<open>required\<close> on the \<^verbatim>\<open>float64\<close> field fails on the zero value before
  \<^verbatim>\<open>min=0\<close> is looked at.  The claim says that value 0 is accepted and stored.
\<close>

theorem createHealthRecord_value_zero_rejected:
  assumes "Request.Method r = ''POST''"
    and "ContentLength r \<le> MaxRequestBodySize"
    and "CtxUser r = Some u"
    and "Body r = Some req"
    and "HealthRecordRequest.Value req = 0"
  shows "Status (fst (createHealthRecordHandler e s r)) = 400
         \<and> snd (createHealthRecordHandler e s r) = s
         \<and> (\<exists>errs. Payload (fst (createHealthRecordHandler e s r)) = ValidationJSON errs
                    \<and> FieldError ''Value'' ''required'' \<in> set errs)"
  using assms
  by (simp add: createHealthRecordHandler_def ValidateRequestSize_def
      validate_HealthRecordInput_def Let_def)

theorem createHealthRecord_value_zero_rejected_witness:
  "Request.Method (heartRateRequest 0) = ''POST''
   \<and> ContentLength (heartRateRequest 0) \<le> MaxRequestBodySize
   \<and> CtxUser (heartRateRequest 0) = Some ''u1''
   \<and> Status (fst (createHealthRecordHandler demoEnv emptyStore (heartRateRequest 0))) = 400
   \<and> snd (createHealthRecordHandler demoEnv emptyStore (heartRateRequest 0)) = emptyStore"
  using createHealthRecord_value_zero_rejected
    [of "heartRateRequest 0" "''u1''" "the (Body (heartRateRequest 0))" demoEnv emptyStore]
  by (simp add: heartRateRequest_def MaxRequestBodySize_def)

section \<open>An unparsable recording time\<close>

text \<open>
  C9.  A create request that passes validation and whose \<^verbatim>\<open>recorded_at\<close> is a non-empty
  string that does not parse as RFC 3339 is not rejected: when the record write reaches the
  store the answer is 201 and its body is the record built from the request (the new
  identifier, the authenticated user, and the type, value, unit and notes of the request)
  with the server's current time as both its recording time and its creation time; that
  same record is stored under the record key with the 30-day TTL.
\<close>

theorem createHealthRecord_unparsable_recorded_at:
  assumes "Request.Method r = ''POST''"
    and "ContentLength r \<le> MaxRequestBodySize"
    and "CtxUser r = Some u"
    and "Body r = Some req"
    and "validate_HealthRecordInput
           \<lparr>HealthRecordInput.Type = HealthRecordRequest.Type req,
            Value = HealthRecordRequest.Value req,
            Unit = HealthRecordRequest.Unit req\<rparr> = []"
    and "HealthRecordRequest.RecordedAt req \<noteq> ''''"
    and "parseRFC3339 e (HealthRecordRequest.RecordedAt req) = None"
    and "StoreErr e 0 = None"
    and "isUUID (NewUUID e)"
  shows "fst (createHealthRecordHandler e s r)
           = jsonOK 201 []
               (RecordJSON \<lparr>HealthRecord.ID = NewUUID e,
                            UserID = u,
                            Type = HealthRecordRequest.Type req,
                            Value = HealthRecordRequest.Value req,
                            Unit = HealthRecordRequest.Unit req,
                            Notes = HealthRecordRequest.Notes req,
                            RecordedAt = Now e,
                            CreatedAt = Now e\<rparr>)
         \<and> kv (snd (createHealthRecordHandler e s r)) (recordKey u (NewUUID e))
           = Some \<lparr>val = VRecord \<lparr>HealthRecord.ID = NewUUID e,
                                  UserID = u,
                                  Type = HealthRecordRequest.Type req,
                                  Value = HealthRecordRequest.Value req,
                                  Unit = HealthRecordRequest.Unit req,
                                  Notes = HealthRecordRequest.Notes req,
                                  RecordedAt = Now e,
                                  CreatedAt = Now e\<rparr>,
                   expireAt = Some (clock s + 30 * 24 * hour)\<rparr>"
  using assms recordKey_uuid_not_listKey[of "NewUUID e" u]
    recordKey_uuid_not_statsKey[of "NewUUID e" u]
  by (simp add: createHealthRecordHandler_def ValidateRequestSize_def Let_def
      kv_rLPush_other kv_rExpire_other kv_rDel_other rSet_def)

theorem createHealthRecord_unparsable_recorded_at_witness:
  "parseRFC3339 demoEnv ''yesterday'' = None
   \<and> isUUID (NewUUID demoEnv)
   \<and> fst (createHealthRecordHandler demoEnv emptyStore
            ((heartRateRequest 72)
               \<lparr>Body := Some \<lparr>HealthRecordRequest.Type = ''heart_rate'', Value = 72,
                              Unit = ''bpm'', Notes = ''after a walk'',
                              RecordedAt = ''yesterday''\<rparr>\<rparr>))
       = jsonOK 201 []
           (RecordJSON \<lparr>HealthRecord.ID = ''123e4567-e89b-42d3-a456-426614174000'',
                        UserID = ''u1'', Type = ''heart_rate'', Value = 72, Unit = ''bpm'',
                        Notes = ''after a walk'', RecordedAt = 1761300000,
                        CreatedAt = 1761300000\<rparr>)"
proof -
  let ?req = "\<lparr>HealthRecordRequest.Type = ''heart_rate'', Value = 72,
                Unit = ''bpm'', Notes = ''after a walk'', RecordedAt = ''yesterday''\<rparr>"
  let ?r = "(heartRateRequest 72)\<lparr>Body := Some ?req\<rparr>"
  have p: "parseRFC3339 demoEnv ''yesterday'' = None"
    by (simp add: demoEnv_def)
  have u: "isUUID (NewUUID demoEnv)"
    by (simp add: isUUID_def demoEnv_def)
  have 1: "Request.Method ?r = ''POST''"
    and 2: "ContentLength ?r \<le> MaxRequestBodySize"
    and 3: "CtxUser ?r = Some ''u1''"
    and 4: "Body ?r = Some ?req"
    by (simp_all add: heartRateRequest_def MaxRequestBodySize_def)
  have 5: "validate_HealthRecordInput
           \<lparr>HealthRecordInput.Type = HealthRecordRequest.Type ?req,
            Value = HealthRecordRequest.Value ?req,
            Unit = HealthRecordRequest.Unit ?req\<rparr> = []"
    by (simp add: validate_HealthRecordInput_def healthTypes_def)
  have 6: "HealthRecordRequest.RecordedAt ?req \<noteq> ''''"
    and 7: "parseRFC3339 demoEnv (HealthRecordRequest.RecordedAt ?req) = None"
    and 8: "StoreErr demoEnv 0 = None"
    by (simp_all add: demoEnv_def)
  have n: "Now demoEnv = 1761300000"
    and i: "NewUUID demoEnv = ''123e4567-e89b-42d3-a456-426614174000''"
    by (simp_all add: demoEnv_def)
  from createHealthRecord_unparsable_recorded_at [OF 1 2 3 4 5 6 7 8 u, of emptyStore]
  have "fst (createHealthRecordHandler demoEnv emptyStore ?r)
       = jsonOK 201 []
           (RecordJSON \<lparr>HealthRecord.ID = ''123e4567-e89b-42d3-a456-426614174000'',
                        UserID = ''u1'', Type = ''heart_rate'', Value = 72, Unit = ''bpm'',
                        Notes = ''after a walk'', RecordedAt = 1761300000,
                        CreatedAt = 1761300000\<rparr>)"
    unfolding n i by simp
  with p u show ?thesis by blast
qed

section \<open>Token round trip\<close>

text \<open>
  C5.  The token issued for a user carries the method HS256 and exactly the claims subject
  = the user and expiry = now + 1 hour, and the middleware, given that token as a bearer
  header by a request arriving before the expiry, resolves it to the same user.  The JWT
  library's parser is assumed to read the issued compact string back into the header,
  claims and signature it was serialised from; HMAC, the secret and the parser are the
  same for the issuing and the verifying request.
\<close>

theorem jwt_round_trip:
  assumes lib: "parseCompact e' = parseCompact e" "hmac e' = hmac e"
      "JWTSecret e' = JWTSecret e"
    and parse: "parseCompact e
           (compact e (signedToken e (NewWithClaims HS256
               \<lparr>Subject = userID, ExpiresAt = Some (Now e + 1 * hour)\<rparr>) (JWTSecret e)))
         = Some (signedToken e (NewWithClaims HS256
               \<lparr>Subject = userID, ExpiresAt = Some (Now e + 1 * hour)\<rparr>) (JWTSecret e))"
    and soon: "Now e \<le> Now e'" "Now e' < Now e + 1 * hour"
  shows "\<exists>token tok. generateJWT e userID = Inr token
           \<and> token = compact e tok
           \<and> Token.Method tok = HS256
           \<and> Claims tok = \<lparr>Subject = userID, ExpiresAt = Some (Now e + 1 * hour)\<rparr>
           \<and> jwtMiddleware e' (''Bearer '' @ token) = Inr userID"
proof -
  let ?claims = "\<lparr>Subject = userID, ExpiresAt = Some (Now e + 1 * hour)\<rparr>"
  let ?tok = "signedToken e (NewWithClaims HS256 ?claims) (JWTSecret e)"
  have gen: "generateJWT e userID = Inr (compact e ?tok)"
    by (simp add: generateJWT_def SignedString_def NewWithClaims_def GetJWTSecret_def Let_def)
  have meth: "Token.Method ?tok = HS256" and cl: "Claims ?tok = ?claims"
    and sig: "Signature ?tok = hmac e HS256 (JWTSecret e) (HS256, ?claims)"
    by (simp_all add: signedToken_def NewWithClaims_def)
  have "ParseWithClaims e' (compact e ?tok) = Some ?claims"
    using lib parse soon meth cl sig
    by (simp add: ParseWithClaims_def GetJWTSecret_def)
  then have "jwtMiddleware e' (''Bearer '' @ compact e ?tok) = Inr userID"
    by (simp add: jwtMiddleware_def)
  with gen meth cl show ?thesis by blast
qed

theorem jwt_round_trip_witness:
  "Now demoEnv \<le> Now demoEnv \<and> Now demoEnv < Now demoEnv + 1 * hour
   \<and> (\<exists>token. generateJWT demoEnv ''u1'' = Inr token
         \<and> jwtMiddleware demoEnv (''Bearer '' @ token) = Inr ''u1'')"
proof -
  have parse: "parseCompact demoEnv
           (compact demoEnv (signedToken demoEnv (NewWithClaims HS256
               \<lparr>Subject = ''u1'', ExpiresAt = Some (Now demoEnv + 1 * hour)\<rparr>)
                 (JWTSecret demoEnv)))
         = Some (signedToken demoEnv (NewWithClaims HS256
               \<lparr>Subject = ''u1'', ExpiresAt = Some (Now demoEnv + 1 * hour)\<rparr>)
                 (JWTSecret demoEnv))"
    by (simp add: demoEnv_def signedToken_def NewWithClaims_def hour_def)
  have soon: "Now demoEnv \<le> Now demoEnv" "Now demoEnv < Now demoEnv + 1 * hour"
    by (simp_all add: hour_def)
  from jwt_round_trip [OF refl refl refl parse soon]
  obtain token where "generateJWT demoEnv ''u1'' = Inr token"
    "jwtMiddleware demoEnv (''Bearer '' @ token) = Inr ''u1''"
    by blast
  with soon show ?thesis by blast
qed


section \<open>Login failures do not tell registered from unregistered e-mails\<close>

text \<open>
  C4.  Take a store in which one e-mail is registered and another is not, and two login
  requests that pass input validation: one for the registered e-mail with a password that
  does not verify against the stored user, one for the unregistered e-mail.  Both get the
  same response, status 401 with the body \<^verbatim>\<open>{"error": "Invalid email or password"}\<close> and no
  header set by the handler, and neither changes the store.  (Server-side log lines and
  response times are outside the model.)
\<close>

theorem login_wrong_password_same_as_unknown_email:
  assumes "Request.Method r1 = ''POST''" and "Request.Method r2 = ''POST''"
    and "ContentLength r1 \<le> MaxRequestBodySize" and "ContentLength r2 \<le> MaxRequestBodySize"
    and "Body r1 = Some req1" and "Body r2 = Some req2"
    and "validate_LoginRequest e1 req1 = []" and "validate_LoginRequest e2 req2 = []"
    and "StoreErr e1 0 = None" and "StoreErr e2 0 = None"
    and "live s (userKey (LoginRequest.Email req1)) = Some en" and "val en = VUser user"
    and "\<not> VerifyPassword e1 (User.Password user) (LoginRequest.Password req1)"
    and "live s (userKey (LoginRequest.Email req2)) = None"
  shows "loginHandler e1 s r1 = loginHandler e2 s r2
         \<and> loginHandler e1 s r1 = (jsonError 401 ''Invalid email or password'', s)"
  using assms
  by (simp add: loginHandler_def ValidateRequestSize_def rGet_def)

theorem login_wrong_password_same_as_unknown_email_witness:
  "fst (registerHandler demoEnv emptyStore registerRequest)
     = jsonOK 201 []
         (AuthJSON \<lparr>Token = ''h.123e4567-e89b-42d3-a456-426614174000.sig-your-secret-key-change-me-in-production-123e4567-e89b-42d3-a456-426614174000'',
                    ExpiresIn = 3600,
                    User = \<lparr>User.ID = ''123e4567-e89b-42d3-a456-426614174000'',
                            Email = ''ann@example.org'', Password = '''',
                            FullName = ''Ann Lee'', Active = True,
                            CreatedAt = zeroTime, UpdatedAt = zeroTime\<rparr>\<rparr>)
   \<and> loginHandler demoEnv registeredStore (loginRequest ''ann@example.org'' ''wrong-horse'')
     = loginHandler demoEnv registeredStore (loginRequest ''bob@example.org'' ''wrong-horse'')
   \<and> loginHandler demoEnv registeredStore (loginRequest ''ann@example.org'' ''wrong-horse'')
     = (jsonError 401 ''Invalid email or password'', registeredStore)"
proof -
  let ?u = "\<lparr>User.ID = ''123e4567-e89b-42d3-a456-426614174000'',
             Email = ''ann@example.org'', Password = '''',
             FullName = ''Ann Lee'', Active = True,
             CreatedAt = 1761300000, UpdatedAt = 1761300000\<rparr>"
  let ?en = "\<lparr>val = VUser ?u, expireAt = Some (1761300000 + 24 * hour)\<rparr>"
  have reg: "registerHandler demoEnv emptyStore registerRequest
     = (jsonOK 201 []
         (AuthJSON \<lparr>Token = ''h.123e4567-e89b-42d3-a456-426614174000.sig-your-secret-key-change-me-in-production-123e4567-e89b-42d3-a456-426614174000'',
                    ExpiresIn = 3600,
                    User = \<lparr>User.ID = ''123e4567-e89b-42d3-a456-426614174000'',
                            Email = ''ann@example.org'', Password = '''',
                            FullName = ''Ann Lee'', Active = True,
                            CreatedAt = zeroTime, UpdatedAt = zeroTime\<rparr>\<rparr>),
        \<lparr>kv = [userKey ''ann@example.org'' \<mapsto> ?en], clock = 1761300000\<rparr>)"
    by (simp add: registerHandler_def registerRequest_def demoEnv_def emptyStore_def
        ValidateRequestSize_def MaxRequestBodySize_def validate_RegisterRequest_def
        rGet_def live_def HashPassword_def rSet_def marshalUser_def generateJWT_def
        SignedString_def NewWithClaims_def signedToken_def GetJWTSecret_def Let_def)
  have st: "registeredStore = \<lparr>kv = [userKey ''ann@example.org'' \<mapsto> ?en], clock = 1761300000\<rparr>"
    by (simp add: registeredStore_def reg)
  have ann: "live registeredStore (userKey (LoginRequest.Email
               \<lparr>LoginRequest.Email = ''ann@example.org'', Password = ''wrong-horse''\<rparr>)) = Some ?en"
    by (simp add: st live_def hour_def)
  have bob: "live registeredStore (userKey (LoginRequest.Email
               \<lparr>LoginRequest.Email = ''bob@example.org'', Password = ''wrong-horse''\<rparr>)) = None"
    by (simp add: st live_def userKey_def)
  have wrong: "\<not> VerifyPassword demoEnv (User.Password ?u)
                 (LoginRequest.Password
                   \<lparr>LoginRequest.Email = ''ann@example.org'', Password = ''wrong-horse''\<rparr>)"
    by (simp add: VerifyPassword_def demoEnv_def)
  have v1: "validate_LoginRequest demoEnv
              \<lparr>LoginRequest.Email = ''ann@example.org'', Password = ''wrong-horse''\<rparr> = []"
    and v2: "validate_LoginRequest demoEnv
              \<lparr>LoginRequest.Email = ''bob@example.org'', Password = ''wrong-horse''\<rparr> = []"
    by (simp_all add: validate_LoginRequest_def demoEnv_def)
  have m: "\<And>a p. Request.Method (loginRequest a p) = ''POST''"
    and c: "\<And>a p. ContentLength (loginRequest a p) \<le> MaxRequestBodySize"
    and b: "\<And>a p. Body (loginRequest a p) = Some \<lparr>LoginRequest.Email = a, Password = p\<rparr>"
    by (simp_all add: loginRequest_def MaxRequestBodySize_def)
  have f: "StoreErr demoEnv 0 = None"
    by (simp add: demoEnv_def)
  have v: "val ?en = VUser ?u"
    by simp
  have same: "loginHandler demoEnv registeredStore (loginRequest ''ann@example.org'' ''wrong-horse'')
       = loginHandler demoEnv registeredStore (loginRequest ''bob@example.org'' ''wrong-horse'')
     \<and> loginHandler demoEnv registeredStore (loginRequest ''ann@example.org'' ''wrong-horse'')
       = (jsonError 401 ''Invalid email or password'', registeredStore)"
    by (rule login_wrong_password_same_as_unknown_email
         [OF m m c c b b v1 v2 f f ann v wrong bob])
  show ?thesis
    unfolding reg fst_conv using same by blast
qed

section \<open>The stats handler on an available store\<close>

lemma lrange_all: "lrange xs 0 (- 1) = xs"
  by (cases xs) (simp_all add: lrange_def Let_def)

lemma rLRange_all_recordIndex:
  "(case rLRange None (listKey u) 0 (- 1) s of Inr ids \<Rightarrow> ids | Inl err \<Rightarrow> []) = recordIndex s u"
  by (auto simp: rLRange_def recordIndex_def lrange_all split: option.splits rvalue.splits)

lemma rGet_storedRecord:
  "(case rGet None (recordKey u i) s of
      Inr recordJSON \<Rightarrow> unmarshalHealthRecord recordJSON
    | Inl err \<Rightarrow> None) = storedRecord s u i"
  by (auto simp: rGet_def storedRecord_def split: option.splits rvalue.splits)

lemma collectValues_available:
  assumes "\<forall>m\<ge>n. f m = None"
  shows "collectValues f n s u T ids (vs, l) =
           (vs @ map HealthRecord.Value
                   (filter (\<lambda>r. HealthRecord.Type r = T) (List.map_filter (storedRecord s u) ids)),
            foldl (\<lambda>lastRecord r. if HealthRecord.RecordedAt r > lastRecord
                                   then HealthRecord.RecordedAt r else lastRecord) l
              (filter (\<lambda>r. HealthRecord.Type r = T) (List.map_filter (storedRecord s u) ids)))"
  using assms
proof (induction ids arbitrary: n vs l)
  case Nil
  then show ?case by simp
next
  case (Cons i ids)
  have fn: "f n = None" using Cons.prems by simp
  have rest: "\<forall>m\<ge>Suc n. f m = None" using Cons.prems by simp
  show ?case
  proof (cases "storedRecord s u i")
    case None
    then have "(case rGet None (recordKey u i) s of
      Inr recordJSON \<Rightarrow> unmarshalHealthRecord recordJSON | Inl err \<Rightarrow> None) = None"
      by (simp add: rGet_storedRecord)
    then show ?thesis
      using None Cons.IH[OF rest] fn
      by (auto split: sum.splits option.splits)
  next
    case (Some rcd)
    then have "(case rGet None (recordKey u i) s of
      Inr recordJSON \<Rightarrow> unmarshalHealthRecord recordJSON | Inl err \<Rightarrow> None) = Some rcd"
      by (simp add: rGet_storedRecord)
    then show ?thesis
      using Some Cons.IH[OF rest] fn
      by (auto split: sum.splits option.splits)
  qed
qed

lemma computeStats_available:
  assumes "\<forall>n>0. StoreErr e n = None"
  shows "computeStats e s u T =
           (if recordsOfType s u T = []
            then (jsonOK 200 [(''X-Cache'', ''MISS'')] (StatsJSON zeroStats), s)
            else (jsonOK 200 [(''X-Cache'', ''MISS'')]
                    (StatsJSON (statsOver u T (recordsOfType s u T))),
                  s\<lparr>kv := (kv s)(statsKey u T \<mapsto>
                         \<lparr>val = VStats (statsOver u T (recordsOfType s u T)),
                          expireAt = Some (clock s + 1 * hour)\<rparr>)\<rparr>))"
proof -
  have 1: "StoreErr e 1 = None" using assms by simp
  have 2: "\<forall>m\<ge>2. StoreErr e m = None" using assms by simp
  have 3: "StoreErr e (Suc (Suc (length (recordIndex s u)))) = None" using assms by simp
  show ?thesis
    unfolding computeStats_def 1 rLRange_all_recordIndex collectValues_available[OF 2] Let_def
    by (simp add: 3 rSet_def recordsOfType_def statsOver_def)
qed

section \<open>The miss path of the stats handler\<close>

text \<open>
  C7.  On a cache miss (the lookup of the stats key finds nothing or fails) with the
  store available for the rest of the request: when none of the user's stored records
  has the requested type, the answer is 200 with the zero-valued stats object and the
  store is left as it was; when at least one has, the computed stats are the answer and
  are stored under the stats key with a deadline one hour after the store's clock.
\<close>

theorem getHealthStats_miss:
  assumes "Request.Method r = ''GET''"
    and "CtxUser r = Some u"
    and "Query r ''type'' = T" and "T \<noteq> ''''"
    and "rGet (StoreErr e 0) (statsKey u T) s = Inl err"
    and "\<forall>n>0. StoreErr e n = None"
  shows "(recordsOfType s u T = [] \<longrightarrow>
            getHealthStatsHandler e s r
              = (jsonOK 200 [(''X-Cache'', ''MISS'')] (StatsJSON zeroStats), s))
       \<and> (recordsOfType s u T \<noteq> [] \<longrightarrow>
            (\<exists>stats s'. getHealthStatsHandler e s r
                           = (jsonOK 200 [(''X-Cache'', ''MISS'')] (StatsJSON stats), s')
               \<and> stats = statsOver u T (recordsOfType s u T)
               \<and> Count stats = int (length (recordsOfType s u T))
               \<and> kv s' (statsKey u T)
                    = Some \<lparr>val = VStats stats, expireAt = Some (clock s + 1 * hour)\<rparr>
               \<and> (\<forall>k. k \<noteq> statsKey u T \<longrightarrow> kv s' k = kv s k)))"
  using assms
  by (simp add: getHealthStatsHandler_def computeStats_available statsOver_def Let_def)

section \<open>The create handler on an available store\<close>

lemma create_response:
  assumes "validCreate r u req" and "StoreErr e 0 = None"
  shows "fst (createHealthRecordHandler e s r) = jsonOK 201 [] (RecordJSON (recordFor e u req))"
  using assms
  by (simp add: validCreate_def createHealthRecordHandler_def ValidateRequestSize_def
      Let_def rSet_def recordFor_def)

lemma create_clock:
  "clock (snd (createHealthRecordHandler e s r)) = clock s"
  by (simp add: createHealthRecordHandler_def Let_def clock_rDel clock_rExpire clock_rLPush
      rSet_def split: option.splits)

lemma create_stats_deleted:
  assumes "validCreate r u req" and "StoreErr e 0 = None" and "StoreErr e 3 = None"
  shows "kv (snd (createHealthRecordHandler e s r)) (statsKey u (HealthRecordRequest.Type req)) = None"
  using assms
  by (simp add: validCreate_def createHealthRecordHandler_def ValidateRequestSize_def
      Let_def rSet_def rDel_def)

lemma create_other_keys:
  assumes "validCreate r u req"
    and "k \<noteq> recordKey u (NewUUID e)" and "k \<noteq> listKey u"
    and "k \<noteq> statsKey u (HealthRecordRequest.Type req)"
  shows "kv (snd (createHealthRecordHandler e s r)) k = kv s k"
  using assms
  by (simp add: validCreate_def createHealthRecordHandler_def ValidateRequestSize_def
      Let_def kv_rDel_other kv_rExpire_other kv_rLPush_other rSet_def split: option.splits)

lemma create_record_stored:
  assumes "validCreate r u req" and "StoreErr e 0 = None" and "isUUID (NewUUID e)"
  shows "kv (snd (createHealthRecordHandler e s r)) (recordKey u (NewUUID e))
           = Some \<lparr>val = VRecord (recordFor e u req), expireAt = Some (clock s + 30 * 24 * hour)\<rparr>"
  using assms recordKey_uuid_not_listKey[of "NewUUID e" u]
    recordKey_uuid_not_statsKey[of "NewUUID e" u]
  by (simp add: validCreate_def createHealthRecordHandler_def ValidateRequestSize_def Let_def
      kv_rLPush_other kv_rExpire_other kv_rDel_other rSet_def recordFor_def)

lemma live_rSet_other: "k' \<noteq> k \<Longrightarrow> live (snd (rSet f k v t s)) k' = live s k'"
  by (auto simp: rSet_def live_def split: option.splits)

lemma create_index:
  assumes "validCreate r u req" and "StoreErr e 0 = None" and "StoreErr e 1 = None"
    and "StoreErr e 2 = None" and "isUUID (NewUUID e)" and "indexIsList s u"
  shows "kv (snd (createHealthRecordHandler e s r)) (listKey u)
           = Some \<lparr>val = VList (NewUUID e # recordIndex s u),
                   expireAt = Some (clock s + 30 * 24 * hour)\<rparr>"
proof -
  let ?s1 = "snd (rSet None (recordKey u (NewUUID e)) (VRecord (recordFor e u req))
                   (30 * 24 * hour) s)"
  have l1: "live ?s1 (listKey u) = live s (listKey u)"
    using recordKey_uuid_not_listKey[OF assms(5), of u]
    by (simp add: live_rSet_other)
  have c1: "clock ?s1 = clock s"
    by (simp add: clock_rSet)
  have pos: "0 < hour"
    by (simp add: hour_def)
  have "kv (snd (rDel (StoreErr e 3) (statsKey u (HealthRecordRequest.Type req))
             (snd (rExpire None (listKey u) (30 * 24 * hour)
               (snd (rLPush None (listKey u) (NewUUID e) ?s1)))))) (listKey u)
        = Some \<lparr>val = VList (NewUUID e # recordIndex s u),
                expireAt = Some (clock s + 30 * 24 * hour)\<rparr>"
    using assms(6) l1 c1 pos listKey_not_statsKey[of u "HealthRecordRequest.Type req"]
    by (cases "live s (listKey u)")
       (auto simp: kv_rDel_other rExpire_def rLPush_def live_def indexIsList_def recordIndex_def
             split: option.splits rvalue.splits if_splits)
  then show ?thesis
    using assms(1-4)
    by (simp add: validCreate_def createHealthRecordHandler_def ValidateRequestSize_def Let_def
        rSet_def recordFor_def)
qed

lemma live_cong: "kv s' k = kv s k \<Longrightarrow> clock s' = clock s \<Longrightarrow> live s' k = live s k"
  by (auto simp: live_def split: option.splits)

lemma create_recordIndex:
  assumes "validCreate r u req" and "StoreErr e 0 = None" and "StoreErr e 1 = None"
    and "StoreErr e 2 = None" and "isUUID (NewUUID e)" and "indexIsList s u"
  shows "recordIndex (snd (createHealthRecordHandler e s r)) u = NewUUID e # recordIndex s u"
  using create_index[OF assms] create_clock[of e s r]
  by (simp add: recordIndex_def live_def hour_def)

lemma create_storedRecord_new:
  assumes "validCreate r u req" and "StoreErr e 0 = None" and "isUUID (NewUUID e)"
  shows "storedRecord (snd (createHealthRecordHandler e s r)) u (NewUUID e)
           = Some (recordFor e u req)"
  using create_record_stored[OF assms, of s] create_clock[of e s r]
  by (simp add: storedRecord_def live_def hour_def)

lemma recordKey_inject: "recordKey u i = recordKey u j \<longleftrightarrow> i = j"
  by (simp add: recordKey_def)

lemma create_storedRecord_old:
  assumes "validCreate r u req" and "isUUID i" and "i \<noteq> NewUUID e"
  shows "storedRecord (snd (createHealthRecordHandler e s r)) u i = storedRecord s u i"
proof -
  have "kv (snd (createHealthRecordHandler e s r)) (recordKey u i) = kv s (recordKey u i)"
    using assms recordKey_uuid_not_listKey[OF assms(2), of u]
      recordKey_uuid_not_statsKey[OF assms(2), of u]
    by (intro create_other_keys[OF assms(1)]) (simp_all add: recordKey_inject)
  then have "live (snd (createHealthRecordHandler e s r)) (recordKey u i) = live s (recordKey u i)"
    by (rule live_cong) (rule create_clock)
  then show ?thesis
    by (simp add: storedRecord_def)
qed

lemma create_map_filter_old:
  assumes "validCreate r u req" and "list_all isUUID ids" and "NewUUID e \<notin> set ids"
  shows "List.map_filter (storedRecord (snd (createHealthRecordHandler e s r)) u) ids
           = List.map_filter (storedRecord s u) ids"
  using assms(2,3)
proof (induction ids)
  case Nil
  then show ?case by simp
next
  case (Cons i ids)
  then have "storedRecord (snd (createHealthRecordHandler e s r)) u i = storedRecord s u i"
    using create_storedRecord_old[OF assms(1), of i e s] by auto
  with Cons show ?case by (simp split: option.splits)
qed

lemma create_recordsOfType:
  assumes "validCreate r u req" and "StoreErr e 0 = None" and "StoreErr e 1 = None"
    and "StoreErr e 2 = None" and "isUUID (NewUUID e)" and "indexIsList s u"
    and "list_all isUUID (recordIndex s u)" and "NewUUID e \<notin> set (recordIndex s u)"
  shows "recordsOfType (snd (createHealthRecordHandler e s r)) u T
           = (if HealthRecordRequest.Type req = T then [recordFor e u req] else [])
             @ recordsOfType s u T"
  unfolding recordsOfType_def create_recordIndex[OF assms(1-6)]
  by (simp add: create_storedRecord_new[OF assms(1,2,5)]
      create_map_filter_old[OF assms(1,7,8)] recordFor_def)

section \<open>A new record invalidates the cached stats of its type only\<close>


section \<open>The fixtures\<close>

lemma create_indexIsList:
  assumes "validCreate r u req" and "StoreErr e 0 = None" and "StoreErr e 1 = None"
    and "StoreErr e 2 = None" and "isUUID (NewUUID e)" and "indexIsList s u"
  shows "indexIsList (snd (createHealthRecordHandler e s r)) u"
  using create_index[OF assms] create_clock[of e s r]
  by (simp add: indexIsList_def live_def hour_def)

lemma demoEnv_available:
  "StoreErr demoEnv n = None" "StoreErr demoEnv2 n = None" "StoreErr demoEnv3 n = None"
  by (simp_all add: demoEnv_def demoEnv2_def demoEnv3_def)

lemma demoEnv_uuids:
  "isUUID (NewUUID demoEnv)" "isUUID (NewUUID demoEnv2)" "isUUID (NewUUID demoEnv3)"
  "NewUUID demoEnv2 \<noteq> NewUUID demoEnv" "NewUUID demoEnv3 \<noteq> NewUUID demoEnv"
  "NewUUID demoEnv3 \<noteq> NewUUID demoEnv2"
  by (simp_all add: isUUID_def demoEnv_def demoEnv2_def demoEnv3_def)

lemma validCreate_heartRate:
  "0 < v \<Longrightarrow> v \<le> 500 \<Longrightarrow> validCreate (heartRateRequest v) ''u1'' (heartRateBody v)"
  by (simp add: validCreate_def heartRateRequest_def heartRateBody_def MaxRequestBodySize_def
      validate_HealthRecordInput_def healthTypes_def)

lemma emptyStore_facts:
  "recordIndex emptyStore u = []" "indexIsList emptyStore u" "recordsOfType emptyStore u t = []"
  "kv emptyStore k = None"
  by (simp_all add: recordIndex_def indexIsList_def recordsOfType_def emptyStore_def live_def)

lemma store60_facts:
  "recordIndex store60 ''u1'' = [NewUUID demoEnv]"
  "indexIsList store60 ''u1''"
  "recordsOfType store60 ''u1'' ''heart_rate'' = [recordFor demoEnv ''u1'' (heartRateBody 60)]"
  "kv store60 (statsKey ''u1'' ''heart_rate'') = None"
proof -
  have v: "validCreate (heartRateRequest 60) ''u1'' (heartRateBody 60)"
    by (rule validCreate_heartRate) simp_all
  show "recordIndex store60 ''u1'' = [NewUUID demoEnv]"
    unfolding store60_def
    using create_recordIndex[OF v demoEnv_available(1) demoEnv_available(1)
        demoEnv_available(1) demoEnv_uuids(1) emptyStore_facts(2)]
    by (simp add: emptyStore_facts)
  show "indexIsList store60 ''u1''"
    unfolding store60_def
    by (rule create_indexIsList[OF v demoEnv_available(1) demoEnv_available(1)
          demoEnv_available(1) demoEnv_uuids(1) emptyStore_facts(2)])
  show "recordsOfType store60 ''u1'' ''heart_rate'' = [recordFor demoEnv ''u1'' (heartRateBody 60)]"
    unfolding store60_def
    using create_recordsOfType[OF v demoEnv_available(1) demoEnv_available(1)
        demoEnv_available(1) demoEnv_uuids(1) emptyStore_facts(2), of "''heart_rate''"]
    by (simp add: emptyStore_facts heartRateBody_def)
  show "kv store60 (statsKey ''u1'' ''heart_rate'') = None"
    unfolding store60_def
    using create_stats_deleted[OF v demoEnv_available(1) demoEnv_available(1)]
    by (simp add: heartRateBody_def)
qed



lemma statsRequest_facts:
  "Request.Method (statsRequest t) = ''GET''" "CtxUser (statsRequest t) = Some ''u1''"
  "Query (statsRequest t) ''type'' = t"
  by (simp_all add: statsRequest_def)

section \<open>The aggregates\<close>








section \<open>Stats of the three heart-rate records, computed and cached\<close>


section \<open>Concrete runs of the stats theorems\<close>


theorem getHealthStats_miss_witness:
  "getHealthStatsHandler demoEnv emptyStore (statsRequest ''heart_rate'')
     = (jsonOK 200 [(''X-Cache'', ''MISS'')] (StatsJSON zeroStats), emptyStore)
   \<and> recordsOfType store60 ''u1'' ''heart_rate'' \<noteq> []
   \<and> (\<exists>stats s'.
         getHealthStatsHandler demoEnv store60 (statsRequest ''heart_rate'')
           = (jsonOK 200 [(''X-Cache'', ''MISS'')] (StatsJSON stats), s')
         \<and> Count stats = 1
         \<and> kv s' (statsKey ''u1'' ''heart_rate'')
              = Some \<lparr>val = VStats stats, expireAt = Some (clock store60 + 1 * hour)\<rparr>)"
proof -
  have av: "\<forall>n>0. StoreErr demoEnv n = None"
    by (simp add: demoEnv_available)
  have ne: "''heart_rate'' \<noteq> ''''"
    by simp
  have m0: "rGet (StoreErr demoEnv 0) (statsKey ''u1'' ''heart_rate'') emptyStore = Inl Nil"
    by (simp add: rGet_def live_def emptyStore_facts demoEnv_available)
  have m1: "rGet (StoreErr demoEnv 0) (statsKey ''u1'' ''heart_rate'') store60 = Inl Nil"
    by (simp add: rGet_def live_def store60_facts demoEnv_available)
  have r1: "recordsOfType store60 ''u1'' ''heart_rate'' \<noteq> []"
    by (simp add: store60_facts)
  have l1: "int (length (recordsOfType store60 ''u1'' ''heart_rate'')) = 1"
    by (simp add: store60_facts)
  from getHealthStats_miss [OF statsRequest_facts ne m0 av]
  have a: "getHealthStatsHandler demoEnv emptyStore (statsRequest ''heart_rate'')
             = (jsonOK 200 [(''X-Cache'', ''MISS'')] (StatsJSON zeroStats), emptyStore)"
    by (simp add: emptyStore_facts)
  from getHealthStats_miss [OF statsRequest_facts ne m1 av] r1
  obtain stats s' where
    "getHealthStatsHandler demoEnv store60 (statsRequest ''heart_rate'')
       = (jsonOK 200 [(''X-Cache'', ''MISS'')] (StatsJSON stats), s')"
    "Count stats = int (length (recordsOfType store60 ''u1'' ''heart_rate''))"
    "kv s' (statsKey ''u1'' ''heart_rate'')
       = Some \<lparr>val = VStats stats, expireAt = Some (clock store60 + 1 * hour)\<rparr>"
    by blast
  with a r1 l1 show ?thesis
    by (metis (no_types, lifting))
qed


section \<open>The limit of the list handler\<close>

lemma fetchRecords_available:
  assumes "\<forall>m\<ge>n. f m = None"
  shows "fetchRecords f n s u ids = List.map_filter (storedRecord s u) ids"
  using assms
proof (induction ids arbitrary: n)
  case Nil
  then show ?case by simp
next
  case (Cons i ids)
  have fn: "f n = None" using Cons.prems by simp
  have rest: "\<forall>m\<ge>Suc n. f m = None" using Cons.prems by simp
  have "(case rGet None (recordKey u i) s of
           Inr recordJSON \<Rightarrow> unmarshalHealthRecord recordJSON | Inl err \<Rightarrow> None)
          = storedRecord s u i"
    by (rule rGet_storedRecord)
  then show ?case
    using Cons.IH[OF rest] fn
    by (auto split: sum.splits option.splits)
qed

lemma length_fetchRecords: "length (fetchRecords f n s u ids) \<le> length ids"
  by (induction ids arbitrary: n) (auto split: sum.splits option.splits intro: le_SucI)

lemma length_lrange_positive: "1 \<le> l \<Longrightarrow> length (lrange xs 0 (l - 1)) \<le> nat l"
  by (auto simp: lrange_def Let_def)

lemma requestedLimit_le_100: "requestedLimit l \<le> 100"
  by (simp add: requestedLimit_def Let_def split: option.splits)

text \<open>
  The bound holds whenever the limit in effect is positive: at most that many records,
  hence at most 100, are returned (for \<^verbatim>\<open>limit=1000\<close> the limit in effect is 100).
\<close>

lemma getHealthRecords_positive_limit_bounded:
  assumes "1 \<le> requestedLimit (Query r ''limit'')"
    and "Payload (fst (getHealthRecordsHandler e s r)) = RecordsJSON records"
  shows "length records \<le> 100"
proof (cases "Request.Method r = ''GET'' \<and> CtxUser r \<noteq> None")
  case False
  then show ?thesis
    using assms(2)
    by (cases "CtxUser r")
       (auto simp: getHealthRecordsHandler_def httpError_def jsonError_def split: if_splits)
next
  case True
  then obtain u where u: "CtxUser r = Some u" by auto
  let ?l = "requestedLimit (Query r ''limit'')"
  show ?thesis
  proof (cases "rLRange (StoreErr e 0) (listKey u) 0 (?l - 1) s")
    case (Inl err)
    then show ?thesis
      using True u assms(2)
      by (simp add: getHealthRecordsHandler_def Let_def jsonOK_def)
  next
    case (Inr ids)
    then have "length ids \<le> nat ?l"
      using length_lrange_positive[OF assms(1)]
      by (auto simp: rLRange_def split: option.splits rvalue.splits)
    then have "length ids \<le> 100"
      using requestedLimit_le_100[of "Query r ''limit''"] by linarith
    moreover have "records = fetchRecords (StoreErr e) 1 s u ids"
      using True u assms(2) Inr
      by (simp add: getHealthRecordsHandler_def Let_def jsonOK_def)
    ultimately show ?thesis
      using length_fetchRecords[of "StoreErr e" 1 s u ids] by simp
  qed
qed

lemma requestedLimit_1000: "requestedLimit ''1000'' = 100"
  by (simp add: requestedLimit_def Sscanf_d_def isBlank_def isDigit_def digitVal_def Let_def)

lemma requestedLimit_0: "requestedLimit ''0'' = 0"
  by (simp add: requestedLimit_def Sscanf_d_def isBlank_def isDigit_def digitVal_def Let_def)

text \<open>
  C3 (the part the code does not satisfy).  With \<^verbatim>\<open>limit=0\<close> the handler asks Redis for
  the range from 0 to -1, which is the whole list: on an available store every record the
  index lists is returned, however many there are.  The claim says that at most 100 are
  returned for every requested limit.
\<close>

theorem getHealthRecords_limit_zero_returns_all:
  assumes "Request.Method r = ''GET''"
    and "CtxUser r = Some u"
    and "Query r ''limit'' = ''0''"
    and "\<forall>n. StoreErr e n = None"
  shows "Payload (fst (getHealthRecordsHandler e s r))
           = RecordsJSON (List.map_filter (storedRecord s u) (recordIndex s u))
         \<and> Status (fst (getHealthRecordsHandler e s r)) = 200"
proof -
  have e0: "StoreErr e 0 = None" and rest: "\<forall>m\<ge>Suc 0. StoreErr e m = None"
    using assms(4) by simp_all
  have "rLRange None (listKey u) 0 (- 1) s = Inr (recordIndex s u)
        \<or> (\<exists>err. rLRange None (listKey u) 0 (- 1) s = Inl err \<and> recordIndex s u = [])"
    by (auto simp: rLRange_def recordIndex_def lrange_all split: option.splits rvalue.splits)
  then show ?thesis
    using assms(1,2,3) e0
    by (auto simp: getHealthRecordsHandler_def requestedLimit_0 Let_def jsonOK_def
        fetchRecords_available[OF rest])
qed

theorem getHealthRecords_limit_zero_returns_all_witness:
  "Query (listRequest ''0'') ''limit'' = ''0''
   \<and> Status (fst (getHealthRecordsHandler demoEnv bigStore (listRequest ''0''))) = 200
   \<and> (\<exists>records. Payload (fst (getHealthRecordsHandler demoEnv bigStore (listRequest ''0'')))
                     = RecordsJSON records
                  \<and> length records = 101)"
proof -
  have m: "Request.Method (listRequest ''0'') = ''GET''"
    and c: "CtxUser (listRequest ''0'') = Some ''u1''"
    and q: "Query (listRequest ''0'') ''limit'' = ''0''"
    by (simp_all add: listRequest_def)
  have av: "\<forall>n. StoreErr demoEnv n = None"
    by (simp add: demoEnv_available)
  have idx: "recordIndex bigStore ''u1'' = map idOf [0..<101]"
    by (simp add: recordIndex_def live_def bigStore_def)
  have key: "recordKey ''u1'' (idOf n) \<noteq> listKey ''u1''"
    and pre: "prefix ''health:u1:123e4567-'' (recordKey ''u1'' (idOf n))" for n
    by (simp_all add: recordKey_def listKey_def idOf_def)
  have present: "storedRecord bigStore ''u1'' (idOf n) \<noteq> None" for n
    using key[of n] pre[of n]
    by (simp add: storedRecord_def live_def bigStore_def)
  have all: "length (List.map_filter (storedRecord bigStore ''u1'') (map idOf ns)) = length ns"
    for ns
  proof (induction ns)
    case Nil
    then show ?case by simp
  next
    case (Cons n ns)
    then show ?case
      using present[of n] by (auto split: option.splits)
  qed
  from getHealthRecords_limit_zero_returns_all [OF m c q av, of bigStore]
  have "Payload (fst (getHealthRecordsHandler demoEnv bigStore (listRequest ''0'')))
          = RecordsJSON (List.map_filter (storedRecord bigStore ''u1'') (map idOf [0..<101]))"
    and st: "Status (fst (getHealthRecordsHandler demoEnv bigStore (listRequest ''0''))) = 200"
    by (simp_all add: idx)
  moreover have "length (List.map_filter (storedRecord bigStore ''u1'') (map idOf [0..<101]))
                   = 101"
    using all[of "[0..<101]"] by simp
  ultimately show ?thesis
    using q by blast
qed

section \<open>Store failures\<close>

text \<open>
  C8 as stated fails on the list-records read path: with Redis unreachable the handler
  takes its ``list not found'' branch and answers 200 with an empty array.
\<close>

theorem getHealthRecords_store_failure_answers_200:
  "StoreErr downEnv 0 = Some ''dial tcp 127.0.0.1:6379: connect: connection refused''
   \<and> getHealthRecordsHandler downEnv store60 (listRequest ''20'')
       = (jsonOK 200 [] (RecordsJSON []), store60)
   \<and> \<not> 500 \<le> Status (fst (getHealthRecordsHandler downEnv store60 (listRequest ''20'')))"
  by (simp add: getHealthRecordsHandler_def listRequest_def downEnv_def rLRange_def Let_def
      jsonOK_def)

text \<open>
  C8, amended.  When the store command whose error a handler checks fails (the record
  write of create-record, the record delete of delete-record, the user write of register)
  the answer is 500 with a fixed message that does not depend on the error detail, and the
  store is unchanged.  A failed lookup of the stats cache degrades to the computation from
  the records.  A failed read of the index on the list-records path is answered 200 with
  an empty array, not with a 5xx, and also without error detail.
\<close>

theorem store_failure_responses:
  "(validCreate rc u req \<and> StoreErr e 0 = Some d \<longrightarrow>
      createHealthRecordHandler e s rc = (jsonError 500 ''Failed to create record'', s))
   \<and> (Request.Method rd = ''DELETE'' \<and> CtxUser rd = Some u \<and> Query rd ''id'' \<noteq> ''''
        \<and> StoreErr e 0 = Some d \<longrightarrow>
      deleteHealthRecordHandler e s rd = (jsonError 500 ''Failed to delete record'', s))
   \<and> (Request.Method rr = ''POST'' \<and> ContentLength rr \<le> MaxRequestBodySize
        \<and> Body rr = Some rq \<and> validate_RegisterRequest e rq = []
        \<and> rGet (StoreErr e 0) (userKey (RegisterRequest.Email rq)) s = Inl err
        \<and> HashPassword e (RegisterRequest.Password rq) = Some h
        \<and> StoreErr e 1 = Some d \<longrightarrow>
      registerHandler e s rr = (jsonError 500 ''Failed to register user'', s))
   \<and> (Request.Method rs = ''GET'' \<and> CtxUser rs = Some u \<and> Query rs ''type'' = T
        \<and> T \<noteq> '''' \<and> StoreErr e 0 = Some d \<longrightarrow>
      getHealthStatsHandler e s rs = computeStats e s u T
      \<and> Status (fst (getHealthStatsHandler e s rs)) = 200)
   \<and> (Request.Method rl = ''GET'' \<and> CtxUser rl = Some u \<and> StoreErr e 0 = Some d \<longrightarrow>
      getHealthRecordsHandler e s rl = (jsonOK 200 [] (RecordsJSON []), s))"
proof (intro conjI)
  show "validCreate rc u req \<and> StoreErr e 0 = Some d \<longrightarrow>
           createHealthRecordHandler e s rc = (jsonError 500 ''Failed to create record'', s)"
    by (simp add: validCreate_def createHealthRecordHandler_def ValidateRequestSize_def
        Let_def rSet_def)
  show "Request.Method rd = ''DELETE'' \<and> CtxUser rd = Some u \<and> Query rd ''id'' \<noteq> ''''
           \<and> StoreErr e 0 = Some d \<longrightarrow>
           deleteHealthRecordHandler e s rd = (jsonError 500 ''Failed to delete record'', s)"
    by (simp add: deleteHealthRecordHandler_def Let_def rDel_def)
  show "Request.Method rr = ''POST'' \<and> ContentLength rr \<le> MaxRequestBodySize
           \<and> Body rr = Some rq \<and> validate_RegisterRequest e rq = []
           \<and> rGet (StoreErr e 0) (userKey (RegisterRequest.Email rq)) s = Inl err
           \<and> HashPassword e (RegisterRequest.Password rq) = Some h
           \<and> StoreErr e 1 = Some d \<longrightarrow>
           registerHandler e s rr = (jsonError 500 ''Failed to register user'', s)"
    by (simp add: registerHandler_def ValidateRequestSize_def Let_def rSet_def)
  show "Request.Method rs = ''GET'' \<and> CtxUser rs = Some u \<and> Query rs ''type'' = T
           \<and> T \<noteq> '''' \<and> StoreErr e 0 = Some d \<longrightarrow>
           getHealthStatsHandler e s rs = computeStats e s u T
           \<and> Status (fst (getHealthStatsHandler e s rs)) = 200"
    by (auto simp: getHealthStatsHandler_def Let_def rGet_def computeStats_def jsonOK_def
        split: prod.splits)
  show "Request.Method rl = ''GET'' \<and> CtxUser rl = Some u \<and> StoreErr e 0 = Some d \<longrightarrow>
           getHealthRecordsHandler e s rl = (jsonOK 200 [] (RecordsJSON []), s)"
    by (simp add: getHealthRecordsHandler_def Let_def rLRange_def)
qed

theorem store_failure_responses_witness:
  "StoreErr downEnv 0 = Some ''dial tcp 127.0.0.1:6379: connect: connection refused''
   \<and> validCreate (heartRateRequest 72) ''u1'' (heartRateBody 72)
   \<and> createHealthRecordHandler downEnv store60 (heartRateRequest 72)
       = (jsonError 500 ''Failed to create record'', store60)
   \<and> deleteHealthRecordHandler downEnv store60 (deleteRequest (NewUUID demoEnv))
       = (jsonError 500 ''Failed to delete record'', store60)
   \<and> registerHandler downEnv store60 registerRequest
       = (jsonError 500 ''Failed to register user'', store60)
   \<and> getHealthStatsHandler downEnv store60 (statsRequest ''heart_rate'')
       = computeStats downEnv store60 ''u1'' ''heart_rate''
   \<and> Status (fst (getHealthStatsHandler downEnv store60 (statsRequest ''heart_rate''))) = 200
   \<and> getHealthRecordsHandler downEnv store60 (listRequest ''20'')
       = (jsonOK 200 [] (RecordsJSON []), store60)"
proof -
  let ?d = "''dial tcp 127.0.0.1:6379: connect: connection refused''"
  let ?rq = "\<lparr>RegisterRequest.Email = ''ann@example.org'',
              Password = ''correct-horse'', FullName = ''Ann Lee''\<rparr>"
  have d0: "StoreErr downEnv 0 = Some ?d" and d1: "StoreErr downEnv 1 = Some ?d"
    by (simp_all add: downEnv_def)
  have v: "validCreate (heartRateRequest 72) ''u1'' (heartRateBody 72)"
    by (rule validCreate_heartRate) simp_all
  have del: "Request.Method (deleteRequest (NewUUID demoEnv)) = ''DELETE''
             \<and> CtxUser (deleteRequest (NewUUID demoEnv)) = Some ''u1''
             \<and> Query (deleteRequest (NewUUID demoEnv)) ''id'' \<noteq> ''''"
    by (simp add: deleteRequest_def demoEnv_def)
  have reg: "Request.Method registerRequest = ''POST''
             \<and> ContentLength registerRequest \<le> MaxRequestBodySize
             \<and> Body registerRequest = Some ?rq
             \<and> validate_RegisterRequest downEnv ?rq = []
             \<and> rGet (StoreErr downEnv 0) (userKey (RegisterRequest.Email ?rq)) store60
                 = Inl (Unavailable ?d)
             \<and> HashPassword downEnv (RegisterRequest.Password ?rq)
                 = Some (''$2a$12$'' @ ''correct-horse'')"
    by (simp add: registerRequest_def MaxRequestBodySize_def validate_RegisterRequest_def
        downEnv_def demoEnv_def rGet_def HashPassword_def)
  have st: "Request.Method (statsRequest ''heart_rate'') = ''GET''
            \<and> CtxUser (statsRequest ''heart_rate'') = Some ''u1''
            \<and> Query (statsRequest ''heart_rate'') ''type'' = ''heart_rate''
            \<and> ''heart_rate'' \<noteq> ''''"
    by (simp add: statsRequest_def)
  have li: "Request.Method (listRequest ''20'') = ''GET''
            \<and> CtxUser (listRequest ''20'') = Some ''u1''"
    by (simp add: listRequest_def)
  note th = store_failure_responses[where e = downEnv and s = store60 and u = "''u1''"
      and d = ?d and rc = "heartRateRequest 72" and req = "heartRateBody 72"
      and rd = "deleteRequest (NewUUID demoEnv)" and rr = registerRequest and rq = ?rq
      and err = "Unavailable ?d" and h = "''$2a$12$'' @ ''correct-horse''"
      and rs = "statsRequest ''heart_rate''" and T = "''heart_rate''"
      and rl = "listRequest ''20''"]
  from th d0 d1 v del reg st li show ?thesis by blast
qed

section \<open>Types outside the closed set at the stats endpoint\<close>






































end
